theory Spec2Isabelle
  imports Complex_Main "HOL-Library.Sublist"
begin

section \<open>Untyped tool arguments\<close>

text \<open>
  A tool handler receives \<^verbatim>\<open>req.Params.Arguments\<close>, a Go
  \<^verbatim>\<open>map[string]interface{}\<close> filled by the host from JSON. A value is nil, a
  bool, a float64, a string, an array or an object. The float64 carrier is the type
  parameter \<open>'f\<close>: the handlers never compute with it, they only hand it to the
  conversion \<^verbatim>\<open>int(x)\<close>, which is a field of the runtime below.
\<close>

datatype 'f iface =
    INil
  | IBool bool
  | IFloat64 'f
  | IString string
  | IArray "'f iface list"
  | IObject "(string \<times> 'f iface) list"

type_synonym 'f Arguments = "string \<rightharpoonup> 'f iface"

text \<open>
  The comma-ok type assertion \<^verbatim>\<open>v, ok := m[k].(T)\<close>. A missing key reads as the
  nil interface, on which every assertion fails; \<open>Some v\<close> stands for \<open>ok = true\<close>.
\<close>

fun assert_string :: "'f iface option \<Rightarrow> string option" where
  "assert_string (Some (IString s)) = Some s"
| "assert_string _ = None"

fun assert_float64 :: "'f iface option \<Rightarrow> 'f option" where
  "assert_float64 (Some (IFloat64 x)) = Some x"
| "assert_float64 _ = None"

fun assert_bool :: "'f iface option \<Rightarrow> bool option" where
  "assert_bool (Some (IBool b)) = Some b"
| "assert_bool _ = None"

text \<open>\<^verbatim>\<open>s, _ := m[k].(string)\<close>: the zero value \<^verbatim>\<open>""\<close> when the assertion fails.\<close>

definition string_or_zero :: "'f iface option \<Rightarrow> string" where
  "string_or_zero v = (case assert_string v of Some s \<Rightarrow> s | None \<Rightarrow> [])"

section \<open>Formatting\<close>

text \<open>The verbs \<^verbatim>\<open>%d\<close> (decimal) and \<^verbatim>\<open>%v\<close> on a bool of \<^verbatim>\<open>fmt.Sprintf\<close>.\<close>

definition digit :: "nat \<Rightarrow> char" where
  "digit d = ''0123456789'' ! d"

fun show_nat :: "nat \<Rightarrow> string" where
  "show_nat n = (if n < 10 then [digit n] else show_nat (n div 10) @ [digit (n mod 10)])"

declare show_nat.simps [simp del]

definition show_int :: "int \<Rightarrow> string" where
  "show_int i = (if i < 0 then CHR ''-'' # show_nat (nat (- i)) else show_nat (nat i))"

definition show_bool :: "bool \<Rightarrow> string" where
  "show_bool b = (if b then ''true'' else ''false'')"

section \<open>Entities of the upstream API (client.go)\<close>

record Session =
  ID :: string
  Name :: string
  SessionType :: string
  Status :: string
  ScheduledStart :: "string option"
  ActualStart :: "string option"
  ActualEnd :: "string option"
  Opponent :: "string option"
  Location :: "string option"
  ClipCount :: int
  TagCount :: int
  TotalDurationSeconds :: int
  CreatedAt :: string
  UpdatedAt :: string

record 'f Clip =
  ID :: string
  SessionID :: string
  ChannelID :: string
  Title :: "string option"
  StartTime :: string
  EndTime :: string
  DurationSeconds :: 'f
  Status :: string
  IsFavorite :: bool
  ViewCount :: int
  CreatedAt :: string

record Channel =
  ID :: string
  Name :: string
  Description :: "string option"
  InputType :: "string option"
  InputURL :: "string option"
  Resolution :: "string option"
  Framerate :: "int option"
  Status :: string
  LastSeenAt :: "string option"
  ErrorMessage :: "string option"
  CreatedAt :: string

record Tag =
  ID :: string
  ClipID :: string
  SessionID :: string
  Quarter :: "int option"
  Down :: "int option"
  Distance :: "int option"
  PlayType :: "string option"
  Formation :: "string option"
  Result :: "string option"
  YardsGained :: "int option"
  Labels :: "string list"
  Notes :: "string option"
  IsImportant :: bool
  IsReviewed :: bool
  CreatedAt :: string

record 'a PaginatedResponse =
  Data :: "'a list"
  Total :: int
  Limit :: int
  Offset :: int

record ListSessionsParams =
  Status :: string
  SessionType :: string
  Limit :: int
  Offset :: int

record CreateSessionRequest =
  Name :: string
  SessionType :: string
  ScheduledStart :: "string option"
  Opponent :: "string option"
  Location :: "string option"

record ListClipsParams =
  SessionID :: string
  ChannelID :: string
  Status :: string
  Favorite :: "bool option"
  Search :: string
  Limit :: int
  Offset :: int

record ListTagsParams =
  SessionID :: string
  ClipID :: string
  PlayType :: string
  IsImportant :: "bool option"
  IsReviewed :: "bool option"
  Limit :: int
  Offset :: int

record CreateTagRequest =
  ClipID :: string
  SessionID :: string
  Quarter :: "int option"
  Down :: "int option"
  Distance :: "int option"
  PlayType :: "string option"
  Formation :: "string option"
  Result :: "string option"
  YardsGained :: "int option"
  Labels :: "string list"
  Notes :: "string option"

section \<open>HTTP requests and responses\<close>

text \<open>
  A Go \<^verbatim>\<open>error\<close> is kept as its message, the text \<^verbatim>\<open>%v\<close> prints; the
  handlers use nothing else of it. \<^verbatim>\<open>url.Values\<close> is kept as the list of the
  keys set, each with its value: the client sets every key at most once.
\<close>

type_synonym error = string

type_synonym Values = "(string \<times> string) list"

fun Values_Set :: "Values \<Rightarrow> string \<Rightarrow> string \<Rightarrow> Values" where
  "Values_Set [] k v = [(k, v)]"
| "Values_Set ((k', v') # q) k v =
     (if k' = k then (k, v) # q else (k', v') # Values_Set q k v)"

text \<open>\<^verbatim>\<open>Values.Get\<close>: the value of a key, \<^verbatim>\<open>""\<close> when the key is not set.\<close>

definition Values_Get :: "Values \<Rightarrow> string \<Rightarrow> string" where
  "Values_Get q k = (case map_of q k of Some v \<Rightarrow> v | None \<Rightarrow> [])"

text \<open>The value \<^verbatim>\<open>json.Marshal\<close> is applied to for the body of a POST.\<close>

datatype payload =
    SessionPayload CreateSessionRequest
  | TagPayload CreateTagRequest

text \<open>
  A request as the client builds it: \<open>URL\<close> is \<^verbatim>\<open>c.baseURL + path\<close>, \<open>Query\<close>
  the values that \<^verbatim>\<open>get\<close> appends as \<^verbatim>\<open>"?" + query.Encode()\<close> when there is
  at least one, \<open>Body\<close> the value whose JSON encoding is sent (\<open>None\<close>: no body).
\<close>

record request =
  Method :: string
  URL :: string
  Query :: Values
  Header :: Values
  Body :: "payload option"

text \<open>
  The body of a response is a stream: \<open>content\<close> is the bytes it delivers and
  \<open>readErr\<close> the error that ends the reading (a timeout or a reset while the body
  arrives), \<open>None\<close> when the stream ends normally.
\<close>

record ResponseBody =
  content :: string
  readErr :: "error option"

text \<open>
  What \<^verbatim>\<open>httpClient.Do\<close> gives back: an error (connection, timeout, cancellation
  before the response has arrived), or a response with its status code and its
  body.
\<close>

datatype response =
    TransportError error
  | Response int ResponseBody

record Client =
  baseURL :: string
  httpClient :: "request \<Rightarrow> response"

text \<open>
  The functions of Go's standard library the client and the handlers call, as
  parameters: whether \<^verbatim>\<open>http.NewRequestWithContext\<close> rejects a request (an
  unparsable URL) and \<^verbatim>\<open>json.Marshal\<close> a body, each with the error's message; the
  conversion \<^verbatim>\<open>int(x)\<close> of a float64; \<^verbatim>\<open>json.Decoder.Decode\<close> of the
  body stream into each result type (\<open>Inl\<close> its error, which is the stream's own
  error when the stream fails before a value is complete); \<^verbatim>\<open>json.MarshalIndent\<close> of each result type
  (the handlers drop its error and print the bytes).
\<close>

record 'f runtime =
  NewRequestErr :: "request \<Rightarrow> error option"
  MarshalErr :: "payload \<Rightarrow> error option"
  float64_to_int :: "'f \<Rightarrow> int"
  decodeSession :: "ResponseBody \<Rightarrow> error + Session"
  decodeSessions :: "ResponseBody \<Rightarrow> error + Session PaginatedResponse"
  decodeClip :: "ResponseBody \<Rightarrow> error + 'f Clip"
  decodeClips :: "ResponseBody \<Rightarrow> error + 'f Clip PaginatedResponse"
  decodeChannel :: "ResponseBody \<Rightarrow> error + Channel"
  decodeChannels :: "ResponseBody \<Rightarrow> error + Channel PaginatedResponse"
  decodeTag :: "ResponseBody \<Rightarrow> error + Tag"
  decodeTags :: "ResponseBody \<Rightarrow> error + Tag PaginatedResponse"
  marshalSession :: "Session \<Rightarrow> string"
  marshalSessions :: "Session PaginatedResponse \<Rightarrow> string"
  marshalClips :: "'f Clip PaginatedResponse \<Rightarrow> string"
  marshalChannels :: "Channel PaginatedResponse \<Rightarrow> string"
  marshalTag :: "Tag \<Rightarrow> string"
  marshalTags :: "Tag PaginatedResponse \<Rightarrow> string"

section \<open>The HTTP helpers of the client\<close>

text \<open>
  Every client function returns its Go result (\<open>Inl err\<close> for \<^verbatim>\<open>nil, err\<close>,
  \<open>Inr v\<close> for \<^verbatim>\<open>&v, nil\<close>) together with the list of requests it passed to
  \<^verbatim>\<open>httpClient.Do\<close>. All callers pass a non-nil \<^verbatim>\<open>result\<close>, so the response
  of a status below 400 is always decoded. For a status of 400 or more the code
  takes what \<^verbatim>\<open>io.ReadAll\<close> could read of the body and drops its error.
\<close>

definition doRequest ::
  "Client \<Rightarrow> request \<Rightarrow> (ResponseBody \<Rightarrow> error + 'a)
     \<Rightarrow> (error + 'a) \<times> request list" where
  "doRequest c req dec =
     (case httpClient c req of
        TransportError err \<Rightarrow> (Inl (''request failed: '' @ err), [req])
      | Response code b \<Rightarrow>
          if code \<ge> 400
          then (Inl (''API error '' @ show_int code @ '': '' @ content b), [req])
          else (case dec b of
                  Inl err \<Rightarrow> (Inl (''failed to decode response: '' @ err), [req])
                | Inr v \<Rightarrow> (Inr v, [req])))"

definition get ::
  "'f runtime \<Rightarrow> Client \<Rightarrow> string \<Rightarrow> Values \<Rightarrow> (ResponseBody \<Rightarrow> error + 'a)
     \<Rightarrow> (error + 'a) \<times> request list" where
  "get rt c path q dec =
     (let req = \<lparr>Method = ''GET'', URL = baseURL c @ path, Query = q, Header = [],
                 Body = None\<rparr>
      in case NewRequestErr rt req of
           Some err \<Rightarrow> (Inl err, [])
         | None \<Rightarrow> doRequest c req dec)"

definition post ::
  "'f runtime \<Rightarrow> Client \<Rightarrow> string \<Rightarrow> payload option
     \<Rightarrow> (ResponseBody \<Rightarrow> error + 'a)
     \<Rightarrow> (error + 'a) \<times> request list" where
  "post rt c path b dec =
     (case (case b of None \<Rightarrow> None | Some p \<Rightarrow> MarshalErr rt p) of
        Some err \<Rightarrow> (Inl err, [])
      | None \<Rightarrow>
          (let req = \<lparr>Method = ''POST'', URL = baseURL c @ path, Query = [], Header = [],
                      Body = b\<rparr>
           in case NewRequestErr rt req of
                Some err \<Rightarrow> (Inl err, [])
              | None \<Rightarrow>
                  doRequest c
                    (req\<lparr>Header := Values_Set (Header req) ''Content-Type''
                                    ''application/json''\<rparr>)
                    dec))"

section \<open>The client's operations\<close>

definition ListSessions ::
  "'f runtime \<Rightarrow> Client \<Rightarrow> ListSessionsParams
     \<Rightarrow> (error + Session PaginatedResponse) \<times> request list" where
  "ListSessions rt c params =
     (let q = [];
          q = (if ListSessionsParams.Status params \<noteq> []
               then Values_Set q ''status'' (ListSessionsParams.Status params) else q);
          q = (if ListSessionsParams.SessionType params \<noteq> []
               then Values_Set q ''session_type'' (ListSessionsParams.SessionType params)
               else q);
          q = (if ListSessionsParams.Limit params > 0
               then Values_Set q ''limit'' (show_int (ListSessionsParams.Limit params))
               else q);
          q = (if ListSessionsParams.Offset params > 0
               then Values_Set q ''offset'' (show_int (ListSessionsParams.Offset params))
               else q)
      in get rt c ''/api/v1/sessions'' q (decodeSessions rt))"

definition GetSession ::
  "'f runtime \<Rightarrow> Client \<Rightarrow> string \<Rightarrow> (error + Session) \<times> request list" where
  "GetSession rt c ident = get rt c (''/api/v1/sessions/'' @ ident) [] (decodeSession rt)"

definition CreateSession ::
  "'f runtime \<Rightarrow> Client \<Rightarrow> CreateSessionRequest \<Rightarrow> (error + Session) \<times> request list" where
  "CreateSession rt c req =
     post rt c ''/api/v1/sessions'' (Some (SessionPayload req)) (decodeSession rt)"

definition StartSession ::
  "'f runtime \<Rightarrow> Client \<Rightarrow> string \<Rightarrow> (error + Session) \<times> request list" where
  "StartSession rt c ident =
     post rt c (''/api/v1/sessions/'' @ ident @ ''/start'') None (decodeSession rt)"

definition PauseSession ::
  "'f runtime \<Rightarrow> Client \<Rightarrow> string \<Rightarrow> (error + Session) \<times> request list" where
  "PauseSession rt c ident =
     post rt c (''/api/v1/sessions/'' @ ident @ ''/pause'') None (decodeSession rt)"

definition CompleteSession ::
  "'f runtime \<Rightarrow> Client \<Rightarrow> string \<Rightarrow> (error + Session) \<times> request list" where
  "CompleteSession rt c ident =
     post rt c (''/api/v1/sessions/'' @ ident @ ''/complete'') None (decodeSession rt)"

definition ListClips ::
  "'f runtime \<Rightarrow> Client \<Rightarrow> ListClipsParams
     \<Rightarrow> (error + 'f Clip PaginatedResponse) \<times> request list" where
  "ListClips rt c params =
     (let q = [];
          q = (if ListClipsParams.SessionID params \<noteq> []
               then Values_Set q ''session_id'' (ListClipsParams.SessionID params) else q);
          q = (if ListClipsParams.ChannelID params \<noteq> []
               then Values_Set q ''channel_id'' (ListClipsParams.ChannelID params) else q);
          q = (if ListClipsParams.Status params \<noteq> []
               then Values_Set q ''status'' (ListClipsParams.Status params) else q);
          q = (case ListClipsParams.Favorite params of
                 Some b \<Rightarrow> Values_Set q ''favorite'' (show_bool b)
               | None \<Rightarrow> q);
          q = (if ListClipsParams.Search params \<noteq> []
               then Values_Set q ''search'' (ListClipsParams.Search params) else q);
          q = (if ListClipsParams.Limit params > 0
               then Values_Set q ''limit'' (show_int (ListClipsParams.Limit params))
               else q);
          q = (if ListClipsParams.Offset params > 0
               then Values_Set q ''offset'' (show_int (ListClipsParams.Offset params))
               else q)
      in get rt c ''/api/v1/clips'' q (decodeClips rt))"

definition GetClip ::
  "'f runtime \<Rightarrow> Client \<Rightarrow> string \<Rightarrow> (error + 'f Clip) \<times> request list" where
  "GetClip rt c ident = get rt c (''/api/v1/clips/'' @ ident) [] (decodeClip rt)"

definition FavoriteClip ::
  "'f runtime \<Rightarrow> Client \<Rightarrow> string \<Rightarrow> (error + 'f Clip) \<times> request list" where
  "FavoriteClip rt c ident =
     post rt c (''/api/v1/clips/'' @ ident @ ''/favorite'') None (decodeClip rt)"

definition ListChannels ::
  "'f runtime \<Rightarrow> Client \<Rightarrow> (error + Channel PaginatedResponse) \<times> request list" where
  "ListChannels rt c = get rt c ''/api/v1/channels'' [] (decodeChannels rt)"

definition ActivateChannel ::
  "'f runtime \<Rightarrow> Client \<Rightarrow> string \<Rightarrow> (error + Channel) \<times> request list" where
  "ActivateChannel rt c ident =
     post rt c (''/api/v1/channels/'' @ ident @ ''/activate'') None (decodeChannel rt)"

definition DeactivateChannel ::
  "'f runtime \<Rightarrow> Client \<Rightarrow> string \<Rightarrow> (error + Channel) \<times> request list" where
  "DeactivateChannel rt c ident =
     post rt c (''/api/v1/channels/'' @ ident @ ''/deactivate'') None (decodeChannel rt)"

definition ListTags ::
  "'f runtime \<Rightarrow> Client \<Rightarrow> ListTagsParams
     \<Rightarrow> (error + Tag PaginatedResponse) \<times> request list" where
  "ListTags rt c params =
     (let q = [];
          q = (if ListTagsParams.SessionID params \<noteq> []
               then Values_Set q ''session_id'' (ListTagsParams.SessionID params) else q);
          q = (if ListTagsParams.ClipID params \<noteq> []
               then Values_Set q ''clip_id'' (ListTagsParams.ClipID params) else q);
          q = (if ListTagsParams.PlayType params \<noteq> []
               then Values_Set q ''play_type'' (ListTagsParams.PlayType params) else q);
          q = (case ListTagsParams.IsImportant params of
                 Some b \<Rightarrow> Values_Set q ''is_important'' (show_bool b)
               | None \<Rightarrow> q);
          q = (case ListTagsParams.IsReviewed params of
                 Some b \<Rightarrow> Values_Set q ''is_reviewed'' (show_bool b)
               | None \<Rightarrow> q);
          q = (if ListTagsParams.Limit params > 0
               then Values_Set q ''limit'' (show_int (ListTagsParams.Limit params))
               else q)
      in get rt c ''/api/v1/tags'' q (decodeTags rt))"

definition CreateTag ::
  "'f runtime \<Rightarrow> Client \<Rightarrow> CreateTagRequest \<Rightarrow> (error + Tag) \<times> request list" where
  "CreateTag rt c req =
     post rt c ''/api/v1/tags'' (Some (TagPayload req)) (decodeTag rt)"

section \<open>Tool results (the host library's constructors)\<close>

record TextContent =
  Type :: string
  Text :: string

record CallToolResult =
  Content :: "TextContent list"
  IsError :: bool

definition NewToolResultText :: "string \<Rightarrow> CallToolResult" where
  "NewToolResultText text = \<lparr>Content = [\<lparr>Type = ''text'', Text = text\<rparr>], IsError = False\<rparr>"

definition NewToolResultError :: "string \<Rightarrow> CallToolResult" where
  "NewToolResultError text = \<lparr>Content = [\<lparr>Type = ''text'', Text = text\<rparr>], IsError = True\<rparr>"

text \<open>The text of a result: its text contents, one after the other.\<close>

definition result_text :: "CallToolResult \<Rightarrow> string" where
  "result_text r = concat (map TextContent.Text (Content r))"

section \<open>Tool handlers\<close>

text \<open>
  A handler returns the pair of Go (\<open>Inr r\<close> for \<^verbatim>\<open>r, nil\<close>; \<open>Inl err\<close> would be
  \<^verbatim>\<open>nil, err\<close>, which no handler returns) and the requests passed to the HTTP
  client while it ran.
\<close>

type_synonym 'f ToolHandlerFunc =
  "'f runtime \<Rightarrow> Client \<Rightarrow> 'f Arguments \<Rightarrow> (error + CallToolResult) \<times> request list"

definition makeListSessions :: "'f ToolHandlerFunc" where
  "makeListSessions rt c args =
     (let params = \<lparr>ListSessionsParams.Status = [], SessionType = [], Limit = 20,
                    Offset = 0\<rparr>;
          params = (case assert_string (args ''status'') of
                      Some status \<Rightarrow> params\<lparr>ListSessionsParams.Status := status\<rparr>
                    | None \<Rightarrow> params);
          params = (case assert_string (args ''session_type'') of
                      Some sessionType \<Rightarrow>
                        params\<lparr>ListSessionsParams.SessionType := sessionType\<rparr>
                    | None \<Rightarrow> params);
          params = (case assert_float64 (args ''limit'') of
                      Some limit \<Rightarrow>
                        params\<lparr>ListSessionsParams.Limit := float64_to_int rt limit\<rparr>
                    | None \<Rightarrow> params)
      in case ListSessions rt c params of
           (Inl err, tr) \<Rightarrow>
             (Inr (NewToolResultError (''Failed to list sessions: '' @ err)), tr)
         | (Inr resp, tr) \<Rightarrow> (Inr (NewToolResultText (marshalSessions rt resp)), tr))"

definition makeCreateSession :: "'f ToolHandlerFunc" where
  "makeCreateSession rt c args =
     (let name = string_or_zero (args ''name'');
          sessionType = string_or_zero (args ''session_type'')
      in if name = [] \<or> sessionType = []
         then (Inr (NewToolResultError ''name and session_type are required''), [])
         else
           (let createReq = \<lparr>CreateSessionRequest.Name = name, SessionType = sessionType,
                               ScheduledStart = None, Opponent = None, Location = None\<rparr>;
                createReq = (case assert_string (args ''opponent'') of
                               Some opponent \<Rightarrow>
                                 createReq\<lparr>CreateSessionRequest.Opponent := Some opponent\<rparr>
                             | None \<Rightarrow> createReq);
                createReq = (case assert_string (args ''location'') of
                               Some location \<Rightarrow>
                                 createReq\<lparr>CreateSessionRequest.Location := Some location\<rparr>
                             | None \<Rightarrow> createReq)
            in case CreateSession rt c createReq of
                 (Inl err, tr) \<Rightarrow>
                   (Inr (NewToolResultError (''Failed to create session: '' @ err)), tr)
               | (Inr session, tr) \<Rightarrow>
                   (Inr (NewToolResultText
                      (''Session created successfully:'' @ [CHR 0x0A]
                         @ marshalSession rt session)), tr)))"

definition makeStartSession :: "'f ToolHandlerFunc" where
  "makeStartSession rt c args =
     (let sessionID = string_or_zero (args ''session_id'')
      in if sessionID = []
         then (Inr (NewToolResultError ''session_id is required''), [])
         else (case StartSession rt c sessionID of
                 (Inl err, tr) \<Rightarrow>
                   (Inr (NewToolResultError (''Failed to start session: '' @ err)), tr)
               | (Inr session, tr) \<Rightarrow>
                   (Inr (NewToolResultText
                      (''Session '' @ [CHR 0x27] @ Session.Name session @ [CHR 0x27]
                         @ '' started successfully. Status: '' @ Session.Status session)),
                    tr)))"

definition makePauseSession :: "'f ToolHandlerFunc" where
  "makePauseSession rt c args =
     (let sessionID = string_or_zero (args ''session_id'')
      in if sessionID = []
         then (Inr (NewToolResultError ''session_id is required''), [])
         else (case PauseSession rt c sessionID of
                 (Inl err, tr) \<Rightarrow>
                   (Inr (NewToolResultError (''Failed to pause session: '' @ err)), tr)
               | (Inr session, tr) \<Rightarrow>
                   (Inr (NewToolResultText
                      (''Session '' @ [CHR 0x27] @ Session.Name session @ [CHR 0x27]
                         @ '' paused. Status: '' @ Session.Status session)),
                    tr)))"

definition makeCompleteSession :: "'f ToolHandlerFunc" where
  "makeCompleteSession rt c args =
     (let sessionID = string_or_zero (args ''session_id'')
      in if sessionID = []
         then (Inr (NewToolResultError ''session_id is required''), [])
         else (case CompleteSession rt c sessionID of
                 (Inl err, tr) \<Rightarrow>
                   (Inr (NewToolResultError (''Failed to complete session: '' @ err)), tr)
               | (Inr session, tr) \<Rightarrow>
                   (Inr (NewToolResultText
                      (''Session completed:'' @ [CHR 0x0A] @ marshalSession rt session)),
                    tr)))"

definition makeListClips :: "'f ToolHandlerFunc" where
  "makeListClips rt c args =
     (let params = \<lparr>ListClipsParams.SessionID = [], ChannelID = [], Status = [],
                    Favorite = None, Search = [], Limit = 20, Offset = 0\<rparr>;
          params = (case assert_string (args ''session_id'') of
                      Some sessionID \<Rightarrow> params\<lparr>ListClipsParams.SessionID := sessionID\<rparr>
                    | None \<Rightarrow> params);
          params = (case assert_string (args ''status'') of
                      Some status \<Rightarrow> params\<lparr>ListClipsParams.Status := status\<rparr>
                    | None \<Rightarrow> params);
          params = (case assert_bool (args ''favorite'') of
                      Some favorite \<Rightarrow> params\<lparr>ListClipsParams.Favorite := Some favorite\<rparr>
                    | None \<Rightarrow> params);
          params = (case assert_string (args ''search'') of
                      Some search \<Rightarrow> params\<lparr>ListClipsParams.Search := search\<rparr>
                    | None \<Rightarrow> params);
          params = (case assert_float64 (args ''limit'') of
                      Some limit \<Rightarrow>
                        params\<lparr>ListClipsParams.Limit := float64_to_int rt limit\<rparr>
                    | None \<Rightarrow> params)
      in case ListClips rt c params of
           (Inl err, tr) \<Rightarrow>
             (Inr (NewToolResultError (''Failed to list clips: '' @ err)), tr)
         | (Inr resp, tr) \<Rightarrow> (Inr (NewToolResultText (marshalClips rt resp)), tr))"

definition makeFavoriteClip :: "'f ToolHandlerFunc" where
  "makeFavoriteClip rt c args =
     (let clipID = string_or_zero (args ''clip_id'')
      in if clipID = []
         then (Inr (NewToolResultError ''clip_id is required''), [])
         else (case FavoriteClip rt c clipID of
                 (Inl err, tr) \<Rightarrow>
                   (Inr (NewToolResultError (''Failed to toggle favorite: '' @ err)), tr)
               | (Inr clip, tr) \<Rightarrow>
                   (let status = ''added to'';
                        status = (if \<not> Clip.IsFavorite clip then ''removed from''
                                  else status)
                    in (Inr (NewToolResultText (''Clip '' @ status @ '' favorites'')),
                        tr))))"

definition makeListChannels :: "'f ToolHandlerFunc" where
  "makeListChannels rt c args =
     (case ListChannels rt c of
        (Inl err, tr) \<Rightarrow>
          (Inr (NewToolResultError (''Failed to list channels: '' @ err)), tr)
      | (Inr resp, tr) \<Rightarrow> (Inr (NewToolResultText (marshalChannels rt resp)), tr))"

definition makeActivateChannel :: "'f ToolHandlerFunc" where
  "makeActivateChannel rt c args =
     (let channelID = string_or_zero (args ''channel_id'')
      in if channelID = []
         then (Inr (NewToolResultError ''channel_id is required''), [])
         else (case ActivateChannel rt c channelID of
                 (Inl err, tr) \<Rightarrow>
                   (Inr (NewToolResultError (''Failed to activate channel: '' @ err)), tr)
               | (Inr channel, tr) \<Rightarrow>
                   (Inr (NewToolResultText
                      (''Channel '' @ [CHR 0x27] @ Channel.Name channel @ [CHR 0x27]
                         @ '' activated. Status: '' @ Channel.Status channel)),
                    tr)))"

definition makeDeactivateChannel :: "'f ToolHandlerFunc" where
  "makeDeactivateChannel rt c args =
     (let channelID = string_or_zero (args ''channel_id'')
      in if channelID = []
         then (Inr (NewToolResultError ''channel_id is required''), [])
         else (case DeactivateChannel rt c channelID of
                 (Inl err, tr) \<Rightarrow>
                   (Inr (NewToolResultError (''Failed to deactivate channel: '' @ err)), tr)
               | (Inr channel, tr) \<Rightarrow>
                   (Inr (NewToolResultText
                      (''Channel '' @ [CHR 0x27] @ Channel.Name channel @ [CHR 0x27]
                         @ '' deactivated. Status: '' @ Channel.Status channel)),
                    tr)))"

definition makeListTags :: "'f ToolHandlerFunc" where
  "makeListTags rt c args =
     (let params = \<lparr>ListTagsParams.SessionID = [], ClipID = [], PlayType = [],
                    IsImportant = None, IsReviewed = None, Limit = 50, Offset = 0\<rparr>;
          params = (case assert_string (args ''session_id'') of
                      Some sessionID \<Rightarrow> params\<lparr>ListTagsParams.SessionID := sessionID\<rparr>
                    | None \<Rightarrow> params);
          params = (case assert_string (args ''clip_id'') of
                      Some clipID \<Rightarrow> params\<lparr>ListTagsParams.ClipID := clipID\<rparr>
                    | None \<Rightarrow> params);
          params = (case assert_string (args ''play_type'') of
                      Some playType \<Rightarrow> params\<lparr>ListTagsParams.PlayType := playType\<rparr>
                    | None \<Rightarrow> params);
          params = (case assert_bool (args ''is_important'') of
                      Some isImportant \<Rightarrow>
                        params\<lparr>ListTagsParams.IsImportant := Some isImportant\<rparr>
                    | None \<Rightarrow> params);
          params = (case assert_bool (args ''is_reviewed'') of
                      Some isReviewed \<Rightarrow>
                        params\<lparr>ListTagsParams.IsReviewed := Some isReviewed\<rparr>
                    | None \<Rightarrow> params);
          params = (case assert_float64 (args ''limit'') of
                      Some limit \<Rightarrow>
                        params\<lparr>ListTagsParams.Limit := float64_to_int rt limit\<rparr>
                    | None \<Rightarrow> params)
      in case ListTags rt c params of
           (Inl err, tr) \<Rightarrow>
             (Inr (NewToolResultError (''Failed to list tags: '' @ err)), tr)
         | (Inr resp, tr) \<Rightarrow> (Inr (NewToolResultText (marshalTags rt resp)), tr))"

definition makeCreateTag :: "'f ToolHandlerFunc" where
  "makeCreateTag rt c args =
     (let clipID = string_or_zero (args ''clip_id'');
          sessionID = string_or_zero (args ''session_id'')
      in if clipID = [] \<or> sessionID = []
         then (Inr (NewToolResultError ''clip_id and session_id are required''), [])
         else
           (let createReq = \<lparr>CreateTagRequest.ClipID = clipID, SessionID = sessionID,
                               Quarter = None, Down = None, Distance = None,
                               PlayType = None, Formation = None, Result = None,
                               YardsGained = None, Labels = [], Notes = None\<rparr>;
                createReq = (case assert_string (args ''play_type'') of
                               Some playType \<Rightarrow>
                                 createReq\<lparr>CreateTagRequest.PlayType := Some playType\<rparr>
                             | None \<Rightarrow> createReq);
                createReq = (case assert_string (args ''formation'') of
                               Some formation \<Rightarrow>
                                 createReq\<lparr>CreateTagRequest.Formation := Some formation\<rparr>
                             | None \<Rightarrow> createReq);
                createReq = (case assert_string (args ''result'') of
                               Some result \<Rightarrow>
                                 createReq\<lparr>CreateTagRequest.Result := Some result\<rparr>
                             | None \<Rightarrow> createReq);
                createReq = (case assert_float64 (args ''down'') of
                               Some down \<Rightarrow>
                                 createReq\<lparr>CreateTagRequest.Down :=
                                   Some (float64_to_int rt down)\<rparr>
                             | None \<Rightarrow> createReq);
                createReq = (case assert_float64 (args ''distance'') of
                               Some distance \<Rightarrow>
                                 createReq\<lparr>CreateTagRequest.Distance :=
                                   Some (float64_to_int rt distance)\<rparr>
                             | None \<Rightarrow> createReq);
                createReq = (case assert_float64 (args ''yards_gained'') of
                               Some yardsGained \<Rightarrow>
                                 createReq\<lparr>CreateTagRequest.YardsGained :=
                                   Some (float64_to_int rt yardsGained)\<rparr>
                             | None \<Rightarrow> createReq);
                createReq = (case assert_string (args ''notes'') of
                               Some notes \<Rightarrow>
                                 createReq\<lparr>CreateTagRequest.Notes := Some notes\<rparr>
                             | None \<Rightarrow> createReq)
            in case CreateTag rt c createReq of
                 (Inl err, tr) \<Rightarrow>
                   (Inr (NewToolResultError (''Failed to create tag: '' @ err)), tr)
               | (Inr tag, tr) \<Rightarrow>
                   (Inr (NewToolResultText
                      (''Tag created:'' @ [CHR 0x0A] @ marshalTag rt tag)), tr)))"

section \<open>Registration of the tools\<close>

text \<open>
  \<^verbatim>\<open>RegisterTools\<close> binds twelve tool names, each to its handler and to an input
  schema; \<open>tool_required\<close> is the schema's \<^verbatim>\<open>Required\<close> list.
\<close>

datatype tool =
    list_sessions | create_session | start_session | pause_session | complete_session
  | list_clips | favorite_clip | list_channels | activate_channel | deactivate_channel
  | list_tags | create_tag

fun tool_handler :: "tool \<Rightarrow> 'f ToolHandlerFunc" where
  "tool_handler list_sessions = makeListSessions"
| "tool_handler create_session = makeCreateSession"
| "tool_handler start_session = makeStartSession"
| "tool_handler pause_session = makePauseSession"
| "tool_handler complete_session = makeCompleteSession"
| "tool_handler list_clips = makeListClips"
| "tool_handler favorite_clip = makeFavoriteClip"
| "tool_handler list_channels = makeListChannels"
| "tool_handler activate_channel = makeActivateChannel"
| "tool_handler deactivate_channel = makeDeactivateChannel"
| "tool_handler list_tags = makeListTags"
| "tool_handler create_tag = makeCreateTag"

fun tool_required :: "tool \<Rightarrow> string list" where
  "tool_required list_sessions = []"
| "tool_required create_session = [''name'', ''session_type'']"
| "tool_required start_session = [''session_id'']"
| "tool_required pause_session = [''session_id'']"
| "tool_required complete_session = [''session_id'']"
| "tool_required list_clips = []"
| "tool_required favorite_clip = [''clip_id'']"
| "tool_required list_channels = []"
| "tool_required activate_channel = [''channel_id'']"
| "tool_required deactivate_channel = [''channel_id'']"
| "tool_required list_tags = []"
| "tool_required create_tag = [''clip_id'', ''session_id'']"

text \<open>
  The argument keys each handler reads, with the Go type its assertion names.
\<close>

datatype gotype = T_string | T_float64 | T_bool

fun has_type :: "gotype \<Rightarrow> 'f iface \<Rightarrow> bool" where
  "has_type T_string (IString s) = True"
| "has_type T_float64 (IFloat64 x) = True"
| "has_type T_bool (IBool b) = True"
| "has_type _ _ = False"

fun tool_reads :: "tool \<Rightarrow> (string \<times> gotype) list" where
  "tool_reads list_sessions =
     [(''status'', T_string), (''session_type'', T_string), (''limit'', T_float64)]"
| "tool_reads create_session =
     [(''name'', T_string), (''session_type'', T_string), (''opponent'', T_string),
      (''location'', T_string)]"
| "tool_reads start_session = [(''session_id'', T_string)]"
| "tool_reads pause_session = [(''session_id'', T_string)]"
| "tool_reads complete_session = [(''session_id'', T_string)]"
| "tool_reads list_clips =
     [(''session_id'', T_string), (''status'', T_string), (''favorite'', T_bool),
      (''search'', T_string), (''limit'', T_float64)]"
| "tool_reads favorite_clip = [(''clip_id'', T_string)]"
| "tool_reads list_channels = []"
| "tool_reads activate_channel = [(''channel_id'', T_string)]"
| "tool_reads deactivate_channel = [(''channel_id'', T_string)]"
| "tool_reads list_tags =
     [(''session_id'', T_string), (''clip_id'', T_string), (''play_type'', T_string),
      (''is_important'', T_bool), (''is_reviewed'', T_bool), (''limit'', T_float64)]"
| "tool_reads create_tag =
     [(''clip_id'', T_string), (''session_id'', T_string), (''play_type'', T_string),
      (''formation'', T_string), (''result'', T_string), (''down'', T_float64),
      (''distance'', T_float64), (''yards_gained'', T_float64), (''notes'', T_string)]"

section \<open>Resource handlers (resources.go)\<close>

record TextResourceContents =
  URI :: string
  MIMEType :: string
  Text :: string

text \<open>
  A resource handler returns Go's pair \<^verbatim>\<open>([]interface{}, error)\<close> as it is: the
  contents (\<open>[]\<close> for the nil slice) and the error (\<open>None\<close> for nil), with the
  requests passed to the HTTP client.
\<close>

type_synonym 'f ResourceHandlerFunc =
  "'f runtime \<Rightarrow> Client \<Rightarrow> string
     \<Rightarrow> (TextResourceContents list \<times> error option) \<times> request list"

definition makeSessionsResource :: "'f ResourceHandlerFunc" where
  "makeSessionsResource rt c uri =
     (case ListSessions rt c
             \<lparr>ListSessionsParams.Status = [], SessionType = [], Limit = 100, Offset = 0\<rparr> of
        (Inl err, tr) \<Rightarrow> (([], Some (''failed to fetch sessions: '' @ err)), tr)
      | (Inr resp, tr) \<Rightarrow>
          (([\<lparr>URI = uri, MIMEType = ''application/json'',
              Text = marshalSessions rt resp\<rparr>], None), tr))"

definition makeClipsResource :: "'f ResourceHandlerFunc" where
  "makeClipsResource rt c uri =
     (case ListClips rt c
             \<lparr>ListClipsParams.SessionID = [], ChannelID = [], Status = [],
              Favorite = None, Search = [], Limit = 100, Offset = 0\<rparr> of
        (Inl err, tr) \<Rightarrow> (([], Some (''failed to fetch clips: '' @ err)), tr)
      | (Inr resp, tr) \<Rightarrow>
          (([\<lparr>URI = uri, MIMEType = ''application/json'',
              Text = marshalClips rt resp\<rparr>], None), tr))"

definition makeChannelsResource :: "'f ResourceHandlerFunc" where
  "makeChannelsResource rt c uri =
     (case ListChannels rt c of
        (Inl err, tr) \<Rightarrow> (([], Some (''failed to fetch channels: '' @ err)), tr)
      | (Inr resp, tr) \<Rightarrow>
          (([\<lparr>URI = uri, MIMEType = ''application/json'',
              Text = marshalChannels rt resp\<rparr>], None), tr))"

definition makeTagsResource :: "'f ResourceHandlerFunc" where
  "makeTagsResource rt c uri =
     (case ListTags rt c
             \<lparr>ListTagsParams.SessionID = [], ClipID = [], PlayType = [],
              IsImportant = None, IsReviewed = None, Limit = 100, Offset = 0\<rparr> of
        (Inl err, tr) \<Rightarrow> (([], Some (''failed to fetch tags: '' @ err)), tr)
      | (Inr resp, tr) \<Rightarrow>
          (([\<lparr>URI = uri, MIMEType = ''application/json'',
              Text = marshalTags rt resp\<rparr>], None), tr))"

section \<open>The client's operations, as one call\<close>

text \<open>
  The fourteen operations of the client under one name, each with its arguments.
  The results have eight Go types; \<open>entity\<close> is their sum, so that a call returns
  the error or the decoded value, and the requests passed to the HTTP client.
  \<open>call_decode\<close> is the decoding of the result type an operation declares
  (\<^verbatim>\<open>var resp PaginatedResponse[Session]\<close>, \<^verbatim>\<open>var session Session\<close>, ...).
\<close>

datatype call =
    Call_ListSessions ListSessionsParams
  | Call_GetSession string
  | Call_CreateSession CreateSessionRequest
  | Call_StartSession string
  | Call_PauseSession string
  | Call_CompleteSession string
  | Call_ListClips ListClipsParams
  | Call_GetClip string
  | Call_FavoriteClip string
  | Call_ListChannels
  | Call_ActivateChannel string
  | Call_DeactivateChannel string
  | Call_ListTags ListTagsParams
  | Call_CreateTag CreateTagRequest

datatype 'f entity =
    Sessions "Session PaginatedResponse"
  | OneSession Session
  | Clips "'f Clip PaginatedResponse"
  | OneClip "'f Clip"
  | Channels "Channel PaginatedResponse"
  | OneChannel Channel
  | Tags "Tag PaginatedResponse"
  | OneTag Tag

definition tagged ::
  "('a \<Rightarrow> 'b) \<Rightarrow> (error + 'a) \<times> request list \<Rightarrow> (error + 'b) \<times> request list" where
  "tagged K res = (case res of (Inl err, tr) \<Rightarrow> (Inl err, tr) | (Inr v, tr) \<Rightarrow> (Inr (K v), tr))"

fun client_call ::
  "'f runtime \<Rightarrow> Client \<Rightarrow> call \<Rightarrow> (error + 'f entity) \<times> request list" where
  "client_call rt c (Call_ListSessions params) = tagged Sessions (ListSessions rt c params)"
| "client_call rt c (Call_GetSession ident) = tagged OneSession (GetSession rt c ident)"
| "client_call rt c (Call_CreateSession req) = tagged OneSession (CreateSession rt c req)"
| "client_call rt c (Call_StartSession ident) = tagged OneSession (StartSession rt c ident)"
| "client_call rt c (Call_PauseSession ident) = tagged OneSession (PauseSession rt c ident)"
| "client_call rt c (Call_CompleteSession ident) =
     tagged OneSession (CompleteSession rt c ident)"
| "client_call rt c (Call_ListClips params) = tagged Clips (ListClips rt c params)"
| "client_call rt c (Call_GetClip ident) = tagged OneClip (GetClip rt c ident)"
| "client_call rt c (Call_FavoriteClip ident) = tagged OneClip (FavoriteClip rt c ident)"
| "client_call rt c Call_ListChannels = tagged Channels (ListChannels rt c)"
| "client_call rt c (Call_ActivateChannel ident) =
     tagged OneChannel (ActivateChannel rt c ident)"
| "client_call rt c (Call_DeactivateChannel ident) =
     tagged OneChannel (DeactivateChannel rt c ident)"
| "client_call rt c (Call_ListTags params) = tagged Tags (ListTags rt c params)"
| "client_call rt c (Call_CreateTag req) = tagged OneTag (CreateTag rt c req)"

definition decode_as ::
  "('a \<Rightarrow> 'b) \<Rightarrow> (ResponseBody \<Rightarrow> error + 'a) \<Rightarrow> ResponseBody \<Rightarrow> error + 'b" where
  "decode_as K dec b = (case dec b of Inl err \<Rightarrow> Inl err | Inr v \<Rightarrow> Inr (K v))"

fun call_decode :: "'f runtime \<Rightarrow> call \<Rightarrow> ResponseBody \<Rightarrow> error + 'f entity" where
  "call_decode rt (Call_ListSessions params) = decode_as Sessions (decodeSessions rt)"
| "call_decode rt (Call_GetSession ident) = decode_as OneSession (decodeSession rt)"
| "call_decode rt (Call_CreateSession req) = decode_as OneSession (decodeSession rt)"
| "call_decode rt (Call_StartSession ident) = decode_as OneSession (decodeSession rt)"
| "call_decode rt (Call_PauseSession ident) = decode_as OneSession (decodeSession rt)"
| "call_decode rt (Call_CompleteSession ident) = decode_as OneSession (decodeSession rt)"
| "call_decode rt (Call_ListClips params) = decode_as Clips (decodeClips rt)"
| "call_decode rt (Call_GetClip ident) = decode_as OneClip (decodeClip rt)"
| "call_decode rt (Call_FavoriteClip ident) = decode_as OneClip (decodeClip rt)"
| "call_decode rt Call_ListChannels = decode_as Channels (decodeChannels rt)"
| "call_decode rt (Call_ActivateChannel ident) = decode_as OneChannel (decodeChannel rt)"
| "call_decode rt (Call_DeactivateChannel ident) = decode_as OneChannel (decodeChannel rt)"
| "call_decode rt (Call_ListTags params) = decode_as Tags (decodeTags rt)"
| "call_decode rt (Call_CreateTag req) = decode_as OneTag (decodeTag rt)"

section \<open>An upstream in the manner of the Go tests\<close>

text \<open>
  The Go tests run the handlers against a local server that answers every request
  with one fixed status and body. \<open>test_client\<close> is that server; \<open>test_runtime\<close>
  decodes the bodies the examples use, gives back the stream's error for a body that
  breaks off, and takes float64 as \<open>real\<close>, converted to int by truncation toward
  zero.
\<close>

definition test_session :: Session where
  "test_session =
     \<lparr>Session.ID = ''session-123'', Name = ''Test Session'', SessionType = [],
      Status = ''active'', ScheduledStart = None, ActualStart = None, ActualEnd = None,
      Opponent = None, Location = None, ClipCount = 0, TagCount = 0,
      TotalDurationSeconds = 0, CreatedAt = [], UpdatedAt = []\<rparr>"

definition test_clip :: "bool \<Rightarrow> real Clip" where
  "test_clip fav =
     \<lparr>Clip.ID = ''clip-1'', SessionID = [], ChannelID = [], Title = None, StartTime = [],
      EndTime = [], DurationSeconds = 0, Status = [], IsFavorite = fav, ViewCount = 0,
      CreatedAt = []\<rparr>"

definition test_channel :: Channel where
  "test_channel =
     \<lparr>Channel.ID = ''camera-1'', Name = ''Main Camera'', Description = None,
      InputType = None, InputURL = None, Resolution = None, Framerate = None,
      Status = ''active'', LastSeenAt = None, ErrorMessage = None, CreatedAt = []\<rparr>"

definition test_tag :: Tag where
  "test_tag =
     \<lparr>Tag.ID = ''new-tag-id'', ClipID = ''clip-1'', SessionID = ''session-1'',
      Quarter = None, Down = None, Distance = None, PlayType = None, Formation = None,
      Result = None, YardsGained = None, Labels = [], Notes = None, IsImportant = False,
      IsReviewed = False, CreatedAt = []\<rparr>"

definition test_page :: "'a list \<Rightarrow> 'a PaginatedResponse" where
  "test_page xs = \<lparr>Data = xs, Total = int (length xs), Limit = 20, Offset = 0\<rparr>"

definition truncate :: "real \<Rightarrow> int" where
  "truncate x = (if x < 0 then \<lceil>x\<rceil> else \<lfloor>x\<rfloor>)"

definition test_decode :: "string \<Rightarrow> 'a \<Rightarrow> ResponseBody \<Rightarrow> error + 'a" where
  "test_decode expected v b =
     (if content b = expected then Inr v
      else (case readErr b of
              Some err \<Rightarrow> Inl err
            | None \<Rightarrow> Inl ''unexpected end of JSON input''))"

definition test_runtime :: "real runtime" where
  "test_runtime =
     \<lparr>NewRequestErr = (\<lambda>rq. None),
      MarshalErr = (\<lambda>p. None),
      float64_to_int = truncate,
      decodeSession = test_decode ''session'' test_session,
      decodeSessions = test_decode ''sessions'' (test_page [test_session]),
      decodeClip = (\<lambda>b. if content b = ''favorite clip'' then Inr (test_clip True)
                         else test_decode ''clip'' (test_clip False) b),
      decodeClips = test_decode ''clips'' (test_page [test_clip False]),
      decodeChannel = test_decode ''channel'' test_channel,
      decodeChannels = test_decode ''channels'' (test_page [test_channel]),
      decodeTag = test_decode ''tag'' test_tag,
      decodeTags = test_decode ''tags'' (test_page [test_tag]),
      marshalSession = (\<lambda>s. ''{session '' @ Session.ID s @ ''}''),
      marshalSessions = (\<lambda>p. ''{sessions}''),
      marshalClips = (\<lambda>p. ''{clips}''),
      marshalChannels = (\<lambda>p. ''{channels}''),
      marshalTag = (\<lambda>t. ''{tag '' @ Tag.ID t @ ''}''),
      marshalTags = (\<lambda>p. ''{tags}'')\<rparr>"

definition test_client :: "int \<Rightarrow> string \<Rightarrow> Client" where
  "test_client code b =
     \<lparr>baseURL = ''http://127.0.0.1:8080'',
      httpClient = (\<lambda>rq. Response code \<lparr>content = b, readErr = None\<rparr>)\<rparr>"

text \<open>A server that is down: every request fails in the transport.\<close>

definition unreachable_client :: Client where
  "unreachable_client =
     \<lparr>baseURL = ''http://127.0.0.1:8080'',
      httpClient = (\<lambda>rq. TransportError ''connection refused'')\<rparr>"

text \<open>A server that answers 200 and whose body breaks off on the client's timeout.\<close>

definition stalled_client :: Client where
  "stalled_client =
     \<lparr>baseURL = ''http://127.0.0.1:8080'',
      httpClient =
        (\<lambda>rq. Response 200 \<lparr>content = ''{'', readErr = Some ''context deadline exceeded''\<rparr>)\<rparr>"

section \<open>How the answer to a request reaches the caller\<close>

text \<open>
  \<open>classified c dec res\<close>: the result of \<open>res\<close> is, for every request \<open>res\<close>
  passed, what \<open>doRequest\<close> makes of the answer to that request.
  \<open>buildable rt\<close>: the library builds every request and encodes every body.
  \<open>failing c\<close>: the upstream answers every request with a status of 400 or more.
  \<open>reports_status code b res\<close>: a handler's return \<open>res\<close> is an error-flagged result
  whose text contains the status and the body.
\<close>

definition classified ::
  "Client \<Rightarrow> (ResponseBody \<Rightarrow> error + 'a) \<Rightarrow> (error + 'a) \<times> request list \<Rightarrow> bool" where
  "classified c dec res = (\<forall>rq \<in> set (snd res). fst res = fst (doRequest c rq dec))"

definition buildable :: "'f runtime \<Rightarrow> bool" where
  "buildable rt = ((\<forall>rq. NewRequestErr rt rq = None) \<and> (\<forall>p. MarshalErr rt p = None))"

definition failing :: "Client \<Rightarrow> bool" where
  "failing c = (\<forall>rq. \<exists>code b. httpClient c rq = Response code b \<and> 400 \<le> code)"

definition reports_status :: "int \<Rightarrow> string \<Rightarrow> error + CallToolResult \<Rightarrow> bool" where
  "reports_status code b res =
     (\<exists>r. res = Inr r \<and> IsError r \<and> sublist (show_int code) (result_text r)
          \<and> sublist b (result_text r))"

lemmas client_defs =
  ListSessions_def GetSession_def CreateSession_def StartSession_def PauseSession_def
  CompleteSession_def ListClips_def GetClip_def FavoriteClip_def ListChannels_def
  ActivateChannel_def DeactivateChannel_def ListTags_def CreateTag_def

lemmas handler_defs =
  makeListSessions_def makeCreateSession_def makeStartSession_def makePauseSession_def
  makeCompleteSession_def makeListClips_def makeFavoriteClip_def makeListChannels_def
  makeActivateChannel_def makeDeactivateChannel_def makeListTags_def makeCreateTag_def

lemmas test_defs =
  test_runtime_def test_client_def unreachable_client_def stalled_client_def test_decode_def
  test_session_def test_clip_def test_channel_def test_tag_def test_page_def

lemma show_int_examples:
  "show_int 20 = ''20''" "show_int 50 = ''50''" "show_int 100 = ''100''"
  "show_int 10 = ''10''" "show_int 404 = ''404''" "show_int 500 = ''500''"
  by code_simp+

lemma doRequest_trace: "snd (doRequest c rq dec) = [rq]"
  by (simp add: doRequest_def split: response.splits sum.splits)

lemma snd_wrap:
  "snd (case X of (Inl err, tr) \<Rightarrow> (A err, tr) | (Inr v, tr) \<Rightarrow> (B v, tr)) = snd X"
  by (cases X; cases "fst X"; simp)

subsection \<open>Every operation of the client classifies the answer as \<open>doRequest\<close> does\<close>

lemma classified_doRequest: "classified c dec (doRequest c rq dec)"
  by (simp add: classified_def doRequest_trace)

lemma classified_nil: "classified c dec (x, [])"
  by (simp add: classified_def)

lemma classified_get: "classified c dec (get rt c path q dec)"
  by (simp add: get_def Let_def classified_doRequest classified_nil split: option.splits)

lemma classified_post: "classified c dec (post rt c path p dec)"
  by (simp add: post_def Let_def classified_doRequest classified_nil split: option.splits)

lemma classified_client:
  "classified c (decodeSessions rt) (ListSessions rt c lsp)"
  "classified c (decodeSession rt) (GetSession rt c ident)"
  "classified c (decodeSession rt) (CreateSession rt c csr)"
  "classified c (decodeSession rt) (StartSession rt c ident)"
  "classified c (decodeSession rt) (PauseSession rt c ident)"
  "classified c (decodeSession rt) (CompleteSession rt c ident)"
  "classified c (decodeClips rt) (ListClips rt c lcp)"
  "classified c (decodeClip rt) (GetClip rt c ident)"
  "classified c (decodeClip rt) (FavoriteClip rt c ident)"
  "classified c (decodeChannels rt) (ListChannels rt c)"
  "classified c (decodeChannel rt) (ActivateChannel rt c ident)"
  "classified c (decodeChannel rt) (DeactivateChannel rt c ident)"
  "classified c (decodeTags rt) (ListTags rt c ltp)"
  "classified c (decodeTag rt) (CreateTag rt c ctr)"
  by (simp_all add: client_defs Let_def classified_get classified_post)

lemma classified_status:
  assumes "classified c dec X" and "X = (x, tr)" and "rq \<in> set tr"
    and "httpClient c rq = Response code b" and "400 \<le> code"
  shows "x = Inl (''API error '' @ show_int code @ '': '' @ content b)"
  using assms by (auto simp: classified_def doRequest_def)

lemma doRequest_decode_as:
  "fst (doRequest c rq (decode_as K dec)) = fst (tagged K (doRequest c rq dec))"
  by (simp add: doRequest_def decode_as_def tagged_def split: response.splits sum.splits)

lemma classified_tagged:
  assumes "classified c dec res"
  shows "classified c (decode_as K dec) (tagged K res)"
proof -
  have "fst (tagged K res) = fst (doRequest c rq (decode_as K dec))"
    if "rq \<in> set (snd res)" for rq
  proof -
    from assms that have "fst res = fst (doRequest c rq dec)"
      by (simp add: classified_def)
    then have "fst (tagged K res) = fst (tagged K (doRequest c rq dec))"
      by (cases res; cases "doRequest c rq dec")
         (auto simp: tagged_def split: sum.splits)
    then show ?thesis by (simp add: doRequest_decode_as)
  qed
  moreover have "snd (tagged K res) = snd res"
    by (cases res) (simp add: tagged_def split: sum.splits)
  ultimately show ?thesis by (simp add: classified_def)
qed

lemma classified_call: "classified c (call_decode rt cl) (client_call rt c cl)"
  by (cases cl) (simp_all add: classified_tagged classified_client)

subsection \<open>A request that can be built is passed to the HTTP client\<close>

lemma get_passes: "buildable rt \<Longrightarrow> \<exists>rq. snd (get rt c path q dec) = [rq]"
  by (simp add: buildable_def get_def Let_def doRequest_trace)

lemma post_passes: "buildable rt \<Longrightarrow> \<exists>rq. snd (post rt c path p dec) = [rq]"
  by (cases p) (simp_all add: buildable_def post_def Let_def doRequest_trace)

lemma client_passes:
  assumes "buildable rt"
  shows "\<exists>rq. snd (ListSessions rt c lsp) = [rq]"
    and "\<exists>rq. snd (GetSession rt c ident) = [rq]"
    and "\<exists>rq. snd (CreateSession rt c csr) = [rq]"
    and "\<exists>rq. snd (StartSession rt c ident) = [rq]"
    and "\<exists>rq. snd (PauseSession rt c ident) = [rq]"
    and "\<exists>rq. snd (CompleteSession rt c ident) = [rq]"
    and "\<exists>rq. snd (ListClips rt c lcp) = [rq]"
    and "\<exists>rq. snd (GetClip rt c ident) = [rq]"
    and "\<exists>rq. snd (FavoriteClip rt c ident) = [rq]"
    and "\<exists>rq. snd (ListChannels rt c) = [rq]"
    and "\<exists>rq. snd (ActivateChannel rt c ident) = [rq]"
    and "\<exists>rq. snd (DeactivateChannel rt c ident) = [rq]"
    and "\<exists>rq. snd (ListTags rt c ltp) = [rq]"
    and "\<exists>rq. snd (CreateTag rt c ctr) = [rq]"
  unfolding client_defs Let_def
  by (rule get_passes [OF assms] post_passes [OF assms])+

lemma snd_tagged: "snd (tagged K res) = snd res"
  by (cases res) (simp add: tagged_def split: sum.splits)

lemma call_passes: "buildable rt \<Longrightarrow> \<exists>rq. snd (client_call rt c cl) = [rq]"
  by (cases cl) (simp_all add: snd_tagged client_passes)

lemma handler_passes:
  assumes "buildable rt"
  shows "\<exists>rq. snd (makeListSessions rt c args) = [rq]"
    and "string_or_zero (args ''name'') \<noteq> [] \<Longrightarrow> string_or_zero (args ''session_type'') \<noteq> []
           \<Longrightarrow> \<exists>rq. snd (makeCreateSession rt c args) = [rq]"
    and "string_or_zero (args ''session_id'') \<noteq> []
           \<Longrightarrow> \<exists>rq. snd (makeStartSession rt c args) = [rq]"
    and "string_or_zero (args ''session_id'') \<noteq> []
           \<Longrightarrow> \<exists>rq. snd (makePauseSession rt c args) = [rq]"
    and "string_or_zero (args ''session_id'') \<noteq> []
           \<Longrightarrow> \<exists>rq. snd (makeCompleteSession rt c args) = [rq]"
    and "\<exists>rq. snd (makeListClips rt c args) = [rq]"
    and "string_or_zero (args ''clip_id'') \<noteq> []
           \<Longrightarrow> \<exists>rq. snd (makeFavoriteClip rt c args) = [rq]"
    and "\<exists>rq. snd (makeListChannels rt c args) = [rq]"
    and "string_or_zero (args ''channel_id'') \<noteq> []
           \<Longrightarrow> \<exists>rq. snd (makeActivateChannel rt c args) = [rq]"
    and "string_or_zero (args ''channel_id'') \<noteq> []
           \<Longrightarrow> \<exists>rq. snd (makeDeactivateChannel rt c args) = [rq]"
    and "\<exists>rq. snd (makeListTags rt c args) = [rq]"
    and "string_or_zero (args ''clip_id'') \<noteq> [] \<Longrightarrow> string_or_zero (args ''session_id'') \<noteq> []
           \<Longrightarrow> \<exists>rq. snd (makeCreateTag rt c args) = [rq]"
  unfolding handler_defs Let_def
  by (simp_all only: if_False simp_thms snd_wrap client_passes [OF assms])

subsection \<open>An upstream that always answers 400 or more\<close>

lemma doRequest_fails: "failing c \<Longrightarrow> \<exists>e. fst (doRequest c rq dec) = Inl e"
proof -
  assume "failing c"
  then obtain code b where "httpClient c rq = Response code b" and "400 \<le> code"
    unfolding failing_def by blast
  then show ?thesis by (simp add: doRequest_def)
qed

lemma get_fails: "failing c \<Longrightarrow> \<exists>e. fst (get rt c path q dec) = Inl e"
  by (simp add: get_def Let_def doRequest_fails split: option.splits)

lemma post_fails: "failing c \<Longrightarrow> \<exists>e. fst (post rt c path p dec) = Inl e"
  by (simp add: post_def Let_def doRequest_fails split: option.splits)

lemma client_fails:
  assumes "failing c"
  shows "\<exists>e. fst (ListSessions rt c lsp) = Inl e"
    and "\<exists>e. fst (GetSession rt c ident) = Inl e"
    and "\<exists>e. fst (CreateSession rt c csr) = Inl e"
    and "\<exists>e. fst (StartSession rt c ident) = Inl e"
    and "\<exists>e. fst (PauseSession rt c ident) = Inl e"
    and "\<exists>e. fst (CompleteSession rt c ident) = Inl e"
    and "\<exists>e. fst (ListClips rt c lcp) = Inl e"
    and "\<exists>e. fst (GetClip rt c ident) = Inl e"
    and "\<exists>e. fst (FavoriteClip rt c ident) = Inl e"
    and "\<exists>e. fst (ListChannels rt c) = Inl e"
    and "\<exists>e. fst (ActivateChannel rt c ident) = Inl e"
    and "\<exists>e. fst (DeactivateChannel rt c ident) = Inl e"
    and "\<exists>e. fst (ListTags rt c ltp) = Inl e"
    and "\<exists>e. fst (CreateTag rt c ctr) = Inl e"
  unfolding client_defs Let_def
  by (rule get_fails [OF assms] post_fails [OF assms])+

lemma wrap_fails:
  assumes "\<exists>e. fst X = Inl e"
  shows "\<exists>r. fst (if g then (Inr (NewToolResultError m), [])
                else (case X of (Inl err, tr) \<Rightarrow> (Inr (NewToolResultError (p @ err)), tr)
                              | (Inr v, tr) \<Rightarrow> (Inr (f v), tr))) = Inr r \<and> IsError r"
proof -
  from assms obtain e tr where "X = (Inl e, tr)" by (cases X) auto
  then show ?thesis by (simp add: NewToolResultError_def)
qed

lemma wrap_fails_unguarded:
  assumes "\<exists>e. fst X = Inl e"
  shows "\<exists>r. fst (case X of (Inl err, tr) \<Rightarrow> (Inr (NewToolResultError (p @ err)), tr)
                          | (Inr v, tr) \<Rightarrow> (Inr (f v), tr)) = Inr r \<and> IsError r"
proof -
  from assms obtain e tr where "X = (Inl e, tr)" by (cases X) auto
  then show ?thesis by (simp add: NewToolResultError_def)
qed

lemma handler_fails:
  assumes "failing c"
  shows "\<exists>r. fst (makeListSessions rt c args) = Inr r \<and> IsError r"
    and "\<exists>r. fst (makeCreateSession rt c args) = Inr r \<and> IsError r"
    and "\<exists>r. fst (makeStartSession rt c args) = Inr r \<and> IsError r"
    and "\<exists>r. fst (makePauseSession rt c args) = Inr r \<and> IsError r"
    and "\<exists>r. fst (makeCompleteSession rt c args) = Inr r \<and> IsError r"
    and "\<exists>r. fst (makeListClips rt c args) = Inr r \<and> IsError r"
    and "\<exists>r. fst (makeFavoriteClip rt c args) = Inr r \<and> IsError r"
    and "\<exists>r. fst (makeListChannels rt c args) = Inr r \<and> IsError r"
    and "\<exists>r. fst (makeActivateChannel rt c args) = Inr r \<and> IsError r"
    and "\<exists>r. fst (makeDeactivateChannel rt c args) = Inr r \<and> IsError r"
    and "\<exists>r. fst (makeListTags rt c args) = Inr r \<and> IsError r"
    and "\<exists>r. fst (makeCreateTag rt c args) = Inr r \<and> IsError r"
  unfolding handler_defs Let_def
             apply (rule wrap_fails_unguarded [OF client_fails(1) [OF assms]])
            apply (rule wrap_fails [OF client_fails(3) [OF assms]])
           apply (rule wrap_fails [OF client_fails(4) [OF assms]])
          apply (rule wrap_fails [OF client_fails(5) [OF assms]])
         apply (rule wrap_fails [OF client_fails(6) [OF assms]])
        apply (rule wrap_fails_unguarded [OF client_fails(7) [OF assms]])
       apply (rule wrap_fails [OF client_fails(9) [OF assms]])
      apply (rule wrap_fails_unguarded [OF client_fails(10) [OF assms]])
     apply (rule wrap_fails [OF client_fails(11) [OF assms]])
    apply (rule wrap_fails [OF client_fails(12) [OF assms]])
   apply (rule wrap_fails_unguarded [OF client_fails(13) [OF assms]])
  apply (rule wrap_fails [OF client_fails(14) [OF assms]])
  done

subsection \<open>The status and the body in the text of the result\<close>

lemma prefixes_differ: "''request failed: '' @ m \<noteq> ''failed to decode response: '' @ m'"
  by simp

lemma error_result_text:
  "IsError (NewToolResultError (p @ ''API error '' @ show_int code @ '': '' @ b))"
  "sublist (show_int code)
     (result_text (NewToolResultError (p @ ''API error '' @ show_int code @ '': '' @ b)))"
  "sublist b
     (result_text (NewToolResultError (p @ ''API error '' @ show_int code @ '': '' @ b)))"
proof -
  have "sublist (show_int code) ((p @ ''API error '') @ show_int code @ ('': '' @ b))"
    by (rule sublist_appendI)
  moreover have "sublist b ((p @ ''API error '' @ show_int code @ '': '') @ b)"
    by (rule sublist_append_leftI)
  ultimately show
    "sublist (show_int code)
       (result_text (NewToolResultError (p @ ''API error '' @ show_int code @ '': '' @ b)))"
    "sublist b
       (result_text (NewToolResultError (p @ ''API error '' @ show_int code @ '': '' @ b)))"
    by (simp_all add: NewToolResultError_def result_text_def)
qed (simp add: NewToolResultError_def)

text \<open>
  The shape every handler ends in: an optional refusal that passes no request, then
  the client's error wrapped in an error-flagged result.
\<close>

lemma wrap_error:
  assumes "classified c dec X"
    and "(if g then (Inr e0, [])
          else (case X of (Inl err, tr) \<Rightarrow> (Inr (NewToolResultError (p @ err)), tr)
                        | (Inr v, tr) \<Rightarrow> (Inr (f v), tr))) = (res, tr)"
    and "rq \<in> set tr" and "httpClient c rq = Response code b" and "400 \<le> code"
  shows "reports_status code (content b) res"
proof -
  obtain x tr' where X: "X = (x, tr')" by (cases X)
  from assms(2,3) have g: "\<not> g" by (auto split: if_splits)
  with X assms(2) have tr: "tr' = tr" by (auto split: sum.splits)
  from classified_status [OF assms(1) X] tr assms(3-5)
  have x: "x = Inl (''API error '' @ show_int code @ '': '' @ content b)" by simp
  from assms(2) X x g
  have res: "res = Inr (NewToolResultError
                          (p @ ''API error '' @ show_int code @ '': '' @ content b))"
    by auto
  show ?thesis
    unfolding res reports_status_def
    using error_result_text [where p = p and code = code and b = "content b"] by blast
qed

lemma wrap_error_unguarded:
  assumes "classified c dec X"
    and "(case X of (Inl err, tr) \<Rightarrow> (Inr (NewToolResultError (p @ err)), tr)
                  | (Inr v, tr) \<Rightarrow> (Inr (f v), tr)) = (res, tr)"
    and "rq \<in> set tr" and "httpClient c rq = Response code b" and "400 \<le> code"
  shows "reports_status code (content b) res"
  using wrap_error [where g = False, OF assms(1) _ assms(3-5)] assms(2) by simp

lemma handler_status:
  assumes "rq \<in> set tr" and "httpClient c rq = Response code b" and "400 \<le> code"
  shows "makeListSessions rt c args = (res, tr) \<Longrightarrow> reports_status code (content b) res"
    and "makeCreateSession rt c args = (res, tr) \<Longrightarrow> reports_status code (content b) res"
    and "makeStartSession rt c args = (res, tr) \<Longrightarrow> reports_status code (content b) res"
    and "makePauseSession rt c args = (res, tr) \<Longrightarrow> reports_status code (content b) res"
    and "makeCompleteSession rt c args = (res, tr) \<Longrightarrow> reports_status code (content b) res"
    and "makeListClips rt c args = (res, tr) \<Longrightarrow> reports_status code (content b) res"
    and "makeFavoriteClip rt c args = (res, tr) \<Longrightarrow> reports_status code (content b) res"
    and "makeListChannels rt c args = (res, tr) \<Longrightarrow> reports_status code (content b) res"
    and "makeActivateChannel rt c args = (res, tr) \<Longrightarrow> reports_status code (content b) res"
    and "makeDeactivateChannel rt c args = (res, tr)
           \<Longrightarrow> reports_status code (content b) res"
    and "makeListTags rt c args = (res, tr) \<Longrightarrow> reports_status code (content b) res"
    and "makeCreateTag rt c args = (res, tr) \<Longrightarrow> reports_status code (content b) res"
  unfolding handler_defs Let_def
             apply (erule wrap_error_unguarded [OF classified_client(1) _ assms])
            apply (erule wrap_error [OF classified_client(3) _ assms])
           apply (erule wrap_error [OF classified_client(4) _ assms])
          apply (erule wrap_error [OF classified_client(5) _ assms])
         apply (erule wrap_error [OF classified_client(6) _ assms])
        apply (erule wrap_error_unguarded [OF classified_client(7) _ assms])
       apply (erule wrap_error [OF classified_client(9) _ assms])
      apply (erule wrap_error_unguarded [OF classified_client(10) _ assms])
     apply (erule wrap_error [OF classified_client(11) _ assms])
    apply (erule wrap_error [OF classified_client(12) _ assms])
   apply (erule wrap_error_unguarded [OF classified_client(13) _ assms])
  apply (erule wrap_error [OF classified_client(14) _ assms])
  done

section \<open>Required arguments\<close>

text \<open>
  Claim C1. For every tool and every argument its input schema lists as required
  (start_session, pause_session, complete_session, favorite_clip, activate_channel,
  deactivate_channel, create_tag, and create_session too), a call whose argument map
  lacks that argument returns a result with \<open>IsError\<close> set and passes no request to
  the HTTP client. The witness is create_tag called with \<open>clip_id\<close> alone.
\<close>

theorem missing_required_argument:
  assumes "k \<in> set (tool_required t)" and "args k = None"
  shows "\<exists>r. tool_handler t rt c args = (Inr r, []) \<and> IsError r"
  using assms
  by (cases t)
     (auto simp: makeCreateSession_def makeStartSession_def makePauseSession_def
        makeCompleteSession_def makeFavoriteClip_def makeActivateChannel_def
        makeDeactivateChannel_def makeCreateTag_def string_or_zero_def
        NewToolResultError_def)

theorem missing_required_argument_witness:
  "''session_id'' \<in> set (tool_required create_tag)
   \<and> [''clip_id'' \<mapsto> IString ''clip-1''] ''session_id'' = (None :: real iface option)
   \<and> (\<exists>r. tool_handler create_tag test_runtime (test_client 200 [])
              [''clip_id'' \<mapsto> IString ''clip-1''] = (Inr r, [])
          \<and> IsError r)"
  using missing_required_argument [of "''session_id''" create_tag
          "[''clip_id'' \<mapsto> IString ''clip-1'']" test_runtime "test_client 200 []"]
  by simp

text \<open>
  Claim C10. For every tool and every argument its schema lists as required, a call
  in which that argument is the empty string returns exactly what the call returns
  with the argument removed from the map: an error-flagged result, and no request to
  the HTTP client.
\<close>

theorem empty_required_argument:
  assumes "k \<in> set (tool_required t)" and "args k = Some (IString [])"
  shows "tool_handler t rt c args = tool_handler t rt c (args(k := None))
         \<and> (\<exists>r. tool_handler t rt c args = (Inr r, []) \<and> IsError r)"
  using assms
  by (cases t; simp; (elim disjE)?;
      simp add: handler_defs string_or_zero_def NewToolResultError_def Let_def
           cong: if_cong)

theorem empty_required_argument_witness:
  "''session_id'' \<in> set (tool_required start_session)
   \<and> [''session_id'' \<mapsto> IString []] ''session_id'' = Some (IString [] :: real iface)
   \<and> tool_handler start_session test_runtime (test_client 200 ''session'')
        [''session_id'' \<mapsto> IString []]
      = tool_handler start_session test_runtime (test_client 200 ''session'')
          ([''session_id'' \<mapsto> IString []](''session_id'' := None))
   \<and> (\<exists>r. tool_handler start_session test_runtime (test_client 200 ''session'')
              [''session_id'' \<mapsto> IString []] = (Inr r, [])
          \<and> IsError r)"
proof -
  have a: "''session_id'' \<in> set (tool_required start_session)" by simp
  have b: "[''session_id'' \<mapsto> IString []] ''session_id'' = Some (IString [] :: real iface)"
    by simp
  from empty_required_argument [of "''session_id''" start_session
         "[''session_id'' \<mapsto> IString []]" test_runtime "test_client 200 ''session''"] a b
  show ?thesis by blast
qed

section \<open>Arguments of the wrong type\<close>

lemma assert_wrong_type:
  "\<not> has_type T_string v \<Longrightarrow> assert_string (Some v) = None"
  "\<not> has_type T_float64 v \<Longrightarrow> assert_float64 (Some v) = None"
  "\<not> has_type T_bool v \<Longrightarrow> assert_bool (Some v) = None"
  by (cases v; simp)+

text \<open>
  Claim C5. For every tool handler and every argument key it reads, a value whose
  type is not the one the handler's assertion names (a number for a string, a string
  for a number, nil, an array, ...) makes the handler return, and pass to the HTTP
  client, exactly what it does when the key is absent.
\<close>

theorem wrong_type_as_absent:
  assumes "(k, ty) \<in> set (tool_reads t)" and "\<not> has_type ty v"
  shows "tool_handler t rt c (args(k \<mapsto> v)) = tool_handler t rt c (args(k := None))"
  using assms
  by (cases t; simp; elim disjE conjE;
      simp add: handler_defs string_or_zero_def assert_wrong_type Let_def cong: if_cong)

theorem wrong_type_as_absent_witness:
  "(''limit'', T_float64) \<in> set (tool_reads list_sessions)
   \<and> \<not> has_type T_float64 (IString ''10'' :: real iface)
   \<and> tool_handler list_sessions test_runtime (test_client 200 ''sessions'')
        ([''status'' \<mapsto> IString ''active''](''limit'' \<mapsto> IString ''10''))
      = tool_handler list_sessions test_runtime (test_client 200 ''sessions'')
          ([''status'' \<mapsto> IString ''active''](''limit'' := None))"
proof -
  have a: "(''limit'', T_float64) \<in> set (tool_reads list_sessions)" by simp
  have b: "\<not> has_type T_float64 (IString ''10'' :: real iface)" by simp
  from wrong_type_as_absent [of "''limit''" T_float64 list_sessions "IString ''10''"
         test_runtime "test_client 200 ''sessions''" "[''status'' \<mapsto> IString ''active'']"] a b
  show ?thesis by blast
qed

section \<open>Upstream failures\<close>

text \<open>
  Claim C3. For every tool: (1) whenever the upstream answered a request the handler
  passed to the HTTP client with a status of 400 or more, the handler returns a
  result (never a Go error) that is error-flagged and whose text contains the
  decimal status code and the response body; (2) when every required argument is a
  non-empty string and the library builds the request, the handler does pass one
  request to the HTTP client; (3) against an upstream that answers every request
  with a status of 400 or more, the handler's result is error-flagged whatever the
  arguments are.
\<close>

theorem upstream_error_status:
  "(\<forall>rq \<in> set (snd (tool_handler t rt c args)).
      \<forall>code b. httpClient c rq = Response code b \<and> 400 \<le> code
        \<longrightarrow> (\<exists>r. fst (tool_handler t rt c args) = Inr r \<and> IsError r
                 \<and> sublist (show_int code) (result_text r)
                 \<and> sublist (content b) (result_text r)))
   \<and> ((\<forall>k \<in> set (tool_required t). \<exists>s. args k = Some (IString s) \<and> s \<noteq> [])
        \<and> (\<forall>rq. NewRequestErr rt rq = None) \<and> (\<forall>p. MarshalErr rt p = None)
      \<longrightarrow> (\<exists>rq. snd (tool_handler t rt c args) = [rq]))
   \<and> ((\<forall>rq. \<exists>code b. httpClient c rq = Response code b \<and> 400 \<le> code)
      \<longrightarrow> (\<exists>r. fst (tool_handler t rt c args) = Inr r \<and> IsError r))"
proof (intro conjI ballI allI impI)
  fix rq code b
  assume rq: "rq \<in> set (snd (tool_handler t rt c args))"
    and "httpClient c rq = Response code b \<and> 400 \<le> code"
  then have up: "httpClient c rq = Response code b" and code: "400 \<le> code" by simp_all
  obtain res tr where H: "tool_handler t rt c args = (res, tr)"
    by (cases "tool_handler t rt c args")
  with rq have "rq \<in> set tr" by simp
  from H have "reports_status code (content b) res"
    by (cases t) (simp_all add: handler_status [OF \<open>rq \<in> set tr\<close> up code])
  with H show "\<exists>r. fst (tool_handler t rt c args) = Inr r \<and> IsError r
                 \<and> sublist (show_int code) (result_text r)
                 \<and> sublist (content b) (result_text r)"
    by (simp add: reports_status_def)
next
  assume a: "(\<forall>k \<in> set (tool_required t). \<exists>s. args k = Some (IString s) \<and> s \<noteq> [])
        \<and> (\<forall>rq. NewRequestErr rt rq = None) \<and> (\<forall>p. MarshalErr rt p = None)"
  then have b: "buildable rt" by (simp add: buildable_def)
  from a have "\<forall>k \<in> set (tool_required t). string_or_zero (args k) \<noteq> []"
    by (auto simp: string_or_zero_def)
  then show "\<exists>rq. snd (tool_handler t rt c args) = [rq]"
    by (cases t) (simp_all add: handler_passes [OF b])
next
  assume "\<forall>rq. \<exists>code b. httpClient c rq = Response code b \<and> 400 \<le> code"
  then have "failing c" by (simp add: failing_def)
  then show "\<exists>r. fst (tool_handler t rt c args) = Inr r \<and> IsError r"
    by (cases t) (simp_all add: handler_fails)
qed

theorem upstream_error_status_witness:
  "tool_required start_session = [''session_id'']
   \<and> [''session_id'' \<mapsto> IString ''session-123''] ''session_id''
       = Some (IString ''session-123'' :: real iface)
   \<and> (\<forall>rq. NewRequestErr test_runtime rq = None)
   \<and> (\<forall>p. MarshalErr test_runtime p = None)
   \<and> (\<forall>rq. httpClient (test_client 500 ''server error'') rq
             = Response 500 \<lparr>content = ''server error'', readErr = None\<rparr>)
   \<and> tool_handler start_session test_runtime (test_client 500 ''server error'')
        [''session_id'' \<mapsto> IString ''session-123'']
       = (Inr (NewToolResultError ''Failed to start session: API error 500: server error''),
          [\<lparr>Method = ''POST'',
            URL = ''http://127.0.0.1:8080/api/v1/sessions/session-123/start'',
            Query = [], Header = [(''Content-Type'', ''application/json'')],
            Body = None\<rparr>])
   \<and> (\<exists>r. fst (tool_handler start_session test_runtime (test_client 500 ''server error'')
                 [''session_id'' \<mapsto> IString ''session-123'']) = Inr r
          \<and> IsError r \<and> sublist (show_int 500) (result_text r)
          \<and> sublist ''server error'' (result_text r))
   \<and> (\<exists>rq. snd (tool_handler start_session test_runtime (test_client 500 ''server error'')
                  [''session_id'' \<mapsto> IString ''session-123'']) = [rq])"
proof -
  let ?c = "test_client 500 ''server error''"
  let ?args = "[''session_id'' \<mapsto> IString ''session-123''] :: real Arguments"
  let ?rq = "\<lparr>Method = ''POST'',
              URL = ''http://127.0.0.1:8080/api/v1/sessions/session-123/start'',
              Query = [], Header = [(''Content-Type'', ''application/json'')],
              Body = None\<rparr>"
  note th = upstream_error_status [of start_session test_runtime ?c ?args]
  have req: "tool_required start_session = [''session_id'']" by simp
  have arg: "?args ''session_id'' = Some (IString ''session-123'')" by simp
  have nr: "\<forall>rq. NewRequestErr test_runtime rq = None"
    and me: "\<forall>p. MarshalErr test_runtime p = None"
    by (simp_all add: test_runtime_def)
  have up: "\<forall>rq. httpClient ?c rq = Response 500 \<lparr>content = ''server error'', readErr = None\<rparr>"
    by (simp add: test_client_def)
  have run: "tool_handler start_session test_runtime ?c ?args
       = (Inr (NewToolResultError ''Failed to start session: API error 500: server error''),
          [?rq])"
    by (simp add: makeStartSession_def string_or_zero_def StartSession_def post_def
          doRequest_def test_runtime_def test_client_def show_int_examples)
  from run have inset: "?rq \<in> set (snd (tool_handler start_session test_runtime ?c ?args))"
    by simp
  have c500: "(400::int) \<le> 500" by simp
  from th
  have "\<forall>rq \<in> set (snd (tool_handler start_session test_runtime ?c ?args)).
      \<forall>code b. httpClient ?c rq = Response code b \<and> 400 \<le> code
        \<longrightarrow> (\<exists>r. fst (tool_handler start_session test_runtime ?c ?args) = Inr r \<and> IsError r
                 \<and> sublist (show_int code) (result_text r)
                 \<and> sublist (content b) (result_text r))"
    by (rule conjunct1)
  with inset up c500
  have 1: "\<exists>r. fst (tool_handler start_session test_runtime ?c ?args) = Inr r
          \<and> IsError r \<and> sublist (show_int 500) (result_text r)
          \<and> sublist (content \<lparr>content = ''server error'', readErr = None\<rparr>) (result_text r)"
    by blast
  from th req arg nr me
  have 2: "\<exists>rq. snd (tool_handler start_session test_runtime ?c ?args) = [rq]"
    by simp
  from req arg nr me up run 1 2 show ?thesis by simp
qed

text \<open>
  Claim C4, as amended. For every operation of the client: (1) for every request it
  passed to the HTTP client, its result is determined by the answer: an error that
  \<^verbatim>\<open>Do\<close> returns (connection failure, timeout before the response arrives) gives
  the error \<^verbatim>\<open>request failed: ...\<close>; a response with a status of 400 or more
  gives the error \<^verbatim>\<open>API error <status>: <body>\<close>, which carries the status code
  and the raw body as read; a response with a status below 400 (1xx and 3xx
  included) is decoded, and the operation returns the decoded value, or the
  decoder's error as \<^verbatim>\<open>failed to decode response: ...\<close>, which is also what a
  timeout or a reset while the body is read gives; (2) when the library builds the
  request, the operation does pass one request; (3) no \<^verbatim>\<open>request failed\<close> error
  equals a \<^verbatim>\<open>failed to decode response\<close> error. The claim as written, for every
  status outside 2xx, fails: a 300 answer whose body decodes is returned as a value.
\<close>

theorem client_error_classes:
  "(\<forall>rq \<in> set (snd (client_call rt c cl)).
      fst (client_call rt c cl) =
        (case httpClient c rq of
           TransportError m \<Rightarrow> Inl (''request failed: '' @ m)
         | Response code b \<Rightarrow>
             if 400 \<le> code then Inl (''API error '' @ show_int code @ '': '' @ content b)
             else (case call_decode rt cl b of
                     Inl e \<Rightarrow> Inl (''failed to decode response: '' @ e)
                   | Inr v \<Rightarrow> Inr v)))
   \<and> ((\<forall>rq. NewRequestErr rt rq = None) \<and> (\<forall>p. MarshalErr rt p = None)
      \<longrightarrow> (\<exists>rq. snd (client_call rt c cl) = [rq]))
   \<and> (\<forall>m m'. ''request failed: '' @ m \<noteq> ''failed to decode response: '' @ m')"
proof (intro conjI ballI impI)
  fix rq
  assume "rq \<in> set (snd (client_call rt c cl))"
  with classified_call [of c rt cl]
  have "fst (client_call rt c cl) = fst (doRequest c rq (call_decode rt cl))"
    by (simp add: classified_def)
  also have "\<dots> =
        (case httpClient c rq of
           TransportError m \<Rightarrow> Inl (''request failed: '' @ m)
         | Response code b \<Rightarrow>
             if 400 \<le> code then Inl (''API error '' @ show_int code @ '': '' @ content b)
             else (case call_decode rt cl b of
                     Inl e \<Rightarrow> Inl (''failed to decode response: '' @ e)
                   | Inr v \<Rightarrow> Inr v))"
    by (simp add: doRequest_def split: response.splits sum.splits)
  finally show "fst (client_call rt c cl) =
        (case httpClient c rq of
           TransportError m \<Rightarrow> Inl (''request failed: '' @ m)
         | Response code b \<Rightarrow>
             if 400 \<le> code then Inl (''API error '' @ show_int code @ '': '' @ content b)
             else (case call_decode rt cl b of
                     Inl e \<Rightarrow> Inl (''failed to decode response: '' @ e)
                   | Inr v \<Rightarrow> Inr v))" .
next
  assume "(\<forall>rq. NewRequestErr rt rq = None) \<and> (\<forall>p. MarshalErr rt p = None)"
  then have "buildable rt" by (simp add: buildable_def)
  then show "\<exists>rq. snd (client_call rt c cl) = [rq]" by (rule call_passes)
next
  show "\<forall>m m'. ''request failed: '' @ m \<noteq> ''failed to decode response: '' @ m'"
    by simp
qed

theorem client_error_classes_witness:
  "(\<forall>rq. NewRequestErr test_runtime rq = None) \<and> (\<forall>p. MarshalErr test_runtime p = None)
   \<and> fst (client_call test_runtime (test_client 404 ''not found'')
            (Call_GetSession ''session-123''))
       = Inl ''API error 404: not found''
   \<and> fst (client_call test_runtime unreachable_client (Call_GetSession ''session-123''))
       = Inl ''request failed: connection refused''
   \<and> fst (client_call test_runtime (test_client 200 ''<html>'')
            (Call_GetSession ''session-123''))
       = Inl ''failed to decode response: unexpected end of JSON input''
   \<and> fst (client_call test_runtime stalled_client (Call_GetSession ''session-123''))
       = Inl ''failed to decode response: context deadline exceeded''
   \<and> fst (client_call test_runtime (test_client 200 ''session'')
            (Call_GetSession ''session-123''))
       = Inr (OneSession test_session)
   \<and> snd (client_call test_runtime (test_client 200 ''session'')
            (Call_GetSession ''session-123''))
       = [\<lparr>Method = ''GET'', URL = ''http://127.0.0.1:8080/api/v1/sessions/session-123'',
           Query = [], Header = [], Body = None\<rparr>]"
proof -
  let ?rq = "\<lparr>Method = ''GET'', URL = ''http://127.0.0.1:8080/api/v1/sessions/session-123'',
              Query = [], Header = [], Body = None\<rparr>"
  let ?cl = "Call_GetSession ''session-123''"
  have nr: "\<forall>rq. NewRequestErr test_runtime rq = None"
    and me: "\<forall>p. MarshalErr test_runtime p = None"
    by (simp_all add: test_runtime_def)
  have tr: "snd (client_call test_runtime c ?cl)
              = [\<lparr>Method = ''GET'', URL = baseURL c @ ''/api/v1/sessions/session-123'',
                  Query = [], Header = [], Body = None\<rparr>]" for c
    by (simp add: snd_tagged GetSession_def get_def doRequest_trace test_runtime_def)
  have res: "fst (client_call test_runtime c ?cl) =
        (case httpClient c \<lparr>Method = ''GET'',
                             URL = baseURL c @ ''/api/v1/sessions/session-123'',
                             Query = [], Header = [], Body = None\<rparr> of
           TransportError m \<Rightarrow> Inl (''request failed: '' @ m)
         | Response code b \<Rightarrow>
             if 400 \<le> code then Inl (''API error '' @ show_int code @ '': '' @ content b)
             else (case call_decode test_runtime ?cl b of
                     Inl e \<Rightarrow> Inl (''failed to decode response: '' @ e)
                   | Inr v \<Rightarrow> Inr v))" for c
    using client_error_classes [of test_runtime c ?cl] tr [of c] by simp
  have a: "fst (client_call test_runtime (test_client 404 ''not found'') ?cl)
             = Inl ''API error 404: not found''"
    by (subst res) (simp add: test_client_def show_int_examples)
  have b: "fst (client_call test_runtime unreachable_client ?cl)
             = Inl ''request failed: connection refused''"
    by (subst res) (simp add: unreachable_client_def)
  have c: "fst (client_call test_runtime (test_client 200 ''<html>'') ?cl)
             = Inl ''failed to decode response: unexpected end of JSON input''"
    by (subst res) (simp add: test_client_def decode_as_def test_runtime_def test_decode_def)
  have d: "fst (client_call test_runtime stalled_client ?cl)
             = Inl ''failed to decode response: context deadline exceeded''"
    by (subst res) (simp add: stalled_client_def decode_as_def test_runtime_def test_decode_def)
  have e: "fst (client_call test_runtime (test_client 200 ''session'') ?cl)
             = Inr (OneSession test_session)"
    by (subst res) (simp add: test_client_def decode_as_def test_runtime_def test_decode_def)
  have f: "snd (client_call test_runtime (test_client 200 ''session'') ?cl) = [?rq]"
    by (subst tr) (simp add: test_client_def)
  from nr me a b c d e f show ?thesis by blast
qed

theorem non_2xx_status_counterexample:
  "client_call test_runtime (test_client 300 ''session'') (Call_GetSession ''session-123'')
     = (Inr (OneSession test_session),
        [\<lparr>Method = ''GET'', URL = ''http://127.0.0.1:8080/api/v1/sessions/session-123'',
          Query = [], Header = [], Body = None\<rparr>])
   \<and> httpClient (test_client 300 ''session'')
        \<lparr>Method = ''GET'', URL = ''http://127.0.0.1:8080/api/v1/sessions/session-123'',
         Query = [], Header = [], Body = None\<rparr>
      = Response 300 \<lparr>content = ''session'', readErr = None\<rparr>"
  by (simp add: GetSession_def get_def doRequest_def tagged_def test_runtime_def
        test_client_def test_decode_def)

section \<open>The query of the list operations\<close>

lemma get_trace:
  "snd (get rt c path q dec) =
     (case NewRequestErr rt \<lparr>Method = ''GET'', URL = baseURL c @ path, Query = q,
                              Header = [], Body = None\<rparr> of
        None \<Rightarrow> [\<lparr>Method = ''GET'', URL = baseURL c @ path, Query = q, Header = [],
                  Body = None\<rparr>]
      | Some e \<Rightarrow> [])"
  by (simp add: get_def Let_def doRequest_trace split: option.splits)

lemma get_trace_ex:
  assumes "P q"
  shows "\<exists>rq. Method rq = ''GET'' \<and> URL rq = baseURL c @ path \<and> P (Query rq)
           \<and> snd (get rt c path q dec)
               = (case NewRequestErr rt rq of None \<Rightarrow> [rq] | Some e \<Rightarrow> [])"
  by (rule exI [of _ "\<lparr>Method = ''GET'', URL = baseURL c @ path, Query = q, Header = [],
                       Body = None\<rparr>"])
     (simp add: assms get_trace)

lemma Values_Get_Set_same: "Values_Get (Values_Set q k v) k = v"
  by (induction q) (auto simp: Values_Get_def)

lemma Values_Get_if_same:
  "b \<Longrightarrow> Values_Get (if b then Values_Set q k v else q) k = v"
  by (simp add: Values_Get_Set_same)

lemma not_float64: "(\<forall>x. v \<noteq> Some (IFloat64 x)) \<Longrightarrow> assert_float64 v = None"
  by (cases v rule: assert_float64.cases) auto

lemma ListSessions_limit:
  assumes "ListSessionsParams.Limit p = n" and "0 < n" and "ListSessionsParams.Offset p = 0"
  shows "\<exists>rq. Method rq = ''GET'' \<and> URL rq = baseURL c @ ''/api/v1/sessions''
           \<and> Values_Get (Query rq) ''limit'' = show_int n
           \<and> snd (ListSessions rt c p)
               = (case NewRequestErr rt rq of None \<Rightarrow> [rq] | Some e \<Rightarrow> [])"
  unfolding ListSessions_def Let_def
  by (rule get_trace_ex [where P = "\<lambda>q. Values_Get q ''limit'' = show_int n"])
     (simp only: assms Values_Get_if_same if_False less_irrefl)

lemma ListClips_limit:
  assumes "ListClipsParams.Limit p = n" and "0 < n" and "ListClipsParams.Offset p = 0"
  shows "\<exists>rq. Method rq = ''GET'' \<and> URL rq = baseURL c @ ''/api/v1/clips''
           \<and> Values_Get (Query rq) ''limit'' = show_int n
           \<and> snd (ListClips rt c p)
               = (case NewRequestErr rt rq of None \<Rightarrow> [rq] | Some e \<Rightarrow> [])"
  unfolding ListClips_def Let_def
  by (rule get_trace_ex [where P = "\<lambda>q. Values_Get q ''limit'' = show_int n"])
     (simp only: assms Values_Get_if_same if_False less_irrefl)

lemma ListTags_limit:
  assumes "ListTagsParams.Limit p = n" and "0 < n"
  shows "\<exists>rq. Method rq = ''GET'' \<and> URL rq = baseURL c @ ''/api/v1/tags''
           \<and> Values_Get (Query rq) ''limit'' = show_int n
           \<and> snd (ListTags rt c p)
               = (case NewRequestErr rt rq of None \<Rightarrow> [rq] | Some e \<Rightarrow> [])"
  unfolding ListTags_def Let_def
  by (rule get_trace_ex [where P = "\<lambda>q. Values_Get q ''limit'' = show_int n"])
     (simp only: assms Values_Get_if_same)

text \<open>
  Claim C2, as amended. For every argument map, list_sessions passes to the HTTP
  client exactly one request, unless the request cannot be built, and none else: a
  GET of \<^verbatim>\<open>/api/v1/sessions\<close> whose query holds \<open>status\<close> when the map gives it
  as a non-empty string, \<open>session_type\<close> likewise, \<open>limit\<close> as the decimal of
  \<^verbatim>\<open>int(x)\<close> when the map gives the number \<open>x\<close> and \<^verbatim>\<open>int(x) > 0\<close>, \<open>limit=20\<close>
  when the map gives no number for it, and no other parameter. The claim as written
  fails on the empty map, whose request carries \<open>limit=20\<close>, and on a map that
  gives \<open>status\<close> as the empty string and \<open>limit\<close> as 0, whose request
  carries neither.
\<close>

theorem list_sessions_query:
  "snd (makeListSessions rt c args) =
     (let rq = \<lparr>Method = ''GET'', URL = baseURL c @ ''/api/v1/sessions'',
                Query =
                  (case assert_string (args ''status'') of
                     Some s \<Rightarrow> if s \<noteq> [] then [(''status'', s)] else []
                   | None \<Rightarrow> [])
                  @ (case assert_string (args ''session_type'') of
                       Some s \<Rightarrow> if s \<noteq> [] then [(''session_type'', s)] else []
                     | None \<Rightarrow> [])
                  @ (case assert_float64 (args ''limit'') of
                       Some x \<Rightarrow>
                         if 0 < float64_to_int rt x
                         then [(''limit'', show_int (float64_to_int rt x))] else []
                     | None \<Rightarrow> [(''limit'', ''20'')]),
                Header = [], Body = None\<rparr>
      in case NewRequestErr rt rq of None \<Rightarrow> [rq] | Some e \<Rightarrow> [])"
  by (cases "assert_string (args ''status'')"; cases "assert_string (args ''session_type'')";
      cases "assert_float64 (args ''limit'')";
      simp add: makeListSessions_def ListSessions_def snd_wrap get_trace Let_def
        show_int_examples cong: option.case_cong)

theorem list_sessions_query_witness:
  "snd (makeListSessions test_runtime (test_client 200 ''sessions'')
          [''status'' \<mapsto> IString ''active'', ''session_type'' \<mapsto> IString ''game'',
           ''limit'' \<mapsto> IFloat64 10])
     = [\<lparr>Method = ''GET'', URL = ''http://127.0.0.1:8080/api/v1/sessions'',
         Query = [(''status'', ''active''), (''session_type'', ''game''), (''limit'', ''10'')],
         Header = [], Body = None\<rparr>]"
  using list_sessions_query [of test_runtime "test_client 200 ''sessions''"
          "[''status'' \<mapsto> IString ''active'', ''session_type'' \<mapsto> IString ''game'',
            ''limit'' \<mapsto> IFloat64 10]"]
  by (simp add: test_defs truncate_def show_int_examples)

theorem list_sessions_absent_limit_counterexample:
  "snd (makeListSessions test_runtime (test_client 200 ''sessions'') Map.empty)
     = [\<lparr>Method = ''GET'', URL = ''http://127.0.0.1:8080/api/v1/sessions'',
         Query = [(''limit'', ''20'')], Header = [], Body = None\<rparr>]
   \<and> snd (makeListSessions test_runtime (test_client 200 ''sessions'')
            [''status'' \<mapsto> IString [], ''limit'' \<mapsto> IFloat64 0])
       = [\<lparr>Method = ''GET'', URL = ''http://127.0.0.1:8080/api/v1/sessions'',
           Query = [], Header = [], Body = None\<rparr>]"
  by (simp add: makeListSessions_def ListSessions_def get_def doRequest_def test_defs
        truncate_def show_int_examples)

text \<open>
  Claim C9. When the \<open>limit\<close> argument is absent or is not a number, the one request
  list_sessions and list_clips can pass to the HTTP client is a GET whose query has
  \<open>limit=20\<close>, and that of list_tags one whose query has \<open>limit=50\<close>; the request
  is passed unless \<^verbatim>\<open>http.NewRequestWithContext\<close> refuses to build it.
\<close>

theorem default_limit:
  assumes "\<forall>x. args ''limit'' \<noteq> Some (IFloat64 x)"
  shows "(\<exists>rq. Method rq = ''GET'' \<and> URL rq = baseURL c @ ''/api/v1/sessions''
             \<and> Values_Get (Query rq) ''limit'' = ''20''
             \<and> snd (makeListSessions rt c args)
                 = (case NewRequestErr rt rq of None \<Rightarrow> [rq] | Some e \<Rightarrow> []))
       \<and> (\<exists>rq. Method rq = ''GET'' \<and> URL rq = baseURL c @ ''/api/v1/clips''
             \<and> Values_Get (Query rq) ''limit'' = ''20''
             \<and> snd (makeListClips rt c args)
                 = (case NewRequestErr rt rq of None \<Rightarrow> [rq] | Some e \<Rightarrow> []))
       \<and> (\<exists>rq. Method rq = ''GET'' \<and> URL rq = baseURL c @ ''/api/v1/tags''
             \<and> Values_Get (Query rq) ''limit'' = ''50''
             \<and> snd (makeListTags rt c args)
                 = (case NewRequestErr rt rq of None \<Rightarrow> [rq] | Some e \<Rightarrow> []))"
proof -
  from assms have nl: "assert_float64 (args ''limit'') = None" by (rule not_float64)
  have s: "\<exists>rq. Method rq = ''GET'' \<and> URL rq = baseURL c @ ''/api/v1/sessions''
             \<and> Values_Get (Query rq) ''limit'' = show_int 20
             \<and> snd (makeListSessions rt c args)
                 = (case NewRequestErr rt rq of None \<Rightarrow> [rq] | Some e \<Rightarrow> [])"
    unfolding makeListSessions_def Let_def snd_wrap
    by (rule ListSessions_limit) (simp_all add: nl split: option.splits)
  have cl: "\<exists>rq. Method rq = ''GET'' \<and> URL rq = baseURL c @ ''/api/v1/clips''
             \<and> Values_Get (Query rq) ''limit'' = show_int 20
             \<and> snd (makeListClips rt c args)
                 = (case NewRequestErr rt rq of None \<Rightarrow> [rq] | Some e \<Rightarrow> [])"
    unfolding makeListClips_def Let_def snd_wrap
    by (rule ListClips_limit) (simp_all add: nl split: option.splits)
  have tg: "\<exists>rq. Method rq = ''GET'' \<and> URL rq = baseURL c @ ''/api/v1/tags''
             \<and> Values_Get (Query rq) ''limit'' = show_int 50
             \<and> snd (makeListTags rt c args)
                 = (case NewRequestErr rt rq of None \<Rightarrow> [rq] | Some e \<Rightarrow> [])"
    unfolding makeListTags_def Let_def snd_wrap
    by (rule ListTags_limit) (simp_all add: nl split: option.splits)
  from s cl tg show ?thesis unfolding show_int_examples by blast
qed

theorem default_limit_witness:
  "(\<forall>x::real. [''limit'' \<mapsto> IString ''many''] ''limit'' \<noteq> Some (IFloat64 x))
   \<and> (\<exists>rq. Method rq = ''GET''
          \<and> URL rq = baseURL (test_client 200 ''sessions'') @ ''/api/v1/sessions''
          \<and> Values_Get (Query rq) ''limit'' = ''20''
          \<and> snd (makeListSessions test_runtime (test_client 200 ''sessions'')
                   [''limit'' \<mapsto> IString ''many''])
              = (case NewRequestErr test_runtime rq of None \<Rightarrow> [rq] | Some e \<Rightarrow> []))
   \<and> (\<exists>rq. Method rq = ''GET''
          \<and> URL rq = baseURL (test_client 200 ''sessions'') @ ''/api/v1/clips''
          \<and> Values_Get (Query rq) ''limit'' = ''20''
          \<and> snd (makeListClips test_runtime (test_client 200 ''sessions'')
                   [''limit'' \<mapsto> IString ''many''])
              = (case NewRequestErr test_runtime rq of None \<Rightarrow> [rq] | Some e \<Rightarrow> []))
   \<and> (\<exists>rq. Method rq = ''GET''
          \<and> URL rq = baseURL (test_client 200 ''sessions'') @ ''/api/v1/tags''
          \<and> Values_Get (Query rq) ''limit'' = ''50''
          \<and> snd (makeListTags test_runtime (test_client 200 ''sessions'')
                   [''limit'' \<mapsto> IString ''many''])
              = (case NewRequestErr test_runtime rq of None \<Rightarrow> [rq] | Some e \<Rightarrow> []))"
proof -
  have a: "\<forall>x::real. [''limit'' \<mapsto> IString ''many''] ''limit'' \<noteq> Some (IFloat64 x)"
    by simp
  from default_limit [where args = "[''limit'' \<mapsto> IString ''many'']"
         and c = "test_client 200 ''sessions''" and rt = test_runtime] a
  show ?thesis by blast
qed

section \<open>The texts of the state-transition tools\<close>

lemma start_text:
  "sublist ''started successfully''
     (''Session '' @ [CHR 0x27] @ n @ [CHR 0x27] @ '' started successfully. Status: '' @ st)"
proof -
  have "''Session '' @ [CHR 0x27] @ n @ [CHR 0x27] @ '' started successfully. Status: '' @ st
        = (''Session '' @ [CHR 0x27] @ n @ [CHR 0x27] @ '' '') @ ''started successfully''
            @ (''. Status: '' @ st)"
    by simp
  then show ?thesis by (simp only: sublist_appendI)
qed

lemma status_text:
  "sublist st
     (''Session '' @ [CHR 0x27] @ n @ [CHR 0x27] @ '' started successfully. Status: '' @ st)"
proof -
  have "''Session '' @ [CHR 0x27] @ n @ [CHR 0x27] @ '' started successfully. Status: '' @ st
        = (''Session '' @ [CHR 0x27] @ n @ [CHR 0x27] @ '' started successfully. Status: '')
            @ st"
    by simp
  then show ?thesis by (simp only: sublist_append_leftI)
qed

text \<open>
  Claim C6. Called with \<open>session_id\<close> "session-123", start_session passes to the
  HTTP client one request and no other, a POST of
  \<^verbatim>\<open>/api/v1/sessions/session-123/start\<close> (none when the request cannot be built);
  and when the answer to it decodes to a session whose status is "active", the
  handler returns a result that is not error-flagged and whose text contains both
  "started successfully" and "active".
\<close>

theorem start_session_123:
  assumes "args ''session_id'' = Some (IString ''session-123'')"
  shows "snd (makeStartSession rt c args)
           = (case NewRequestErr rt
                     \<lparr>Method = ''POST'',
                      URL = baseURL c @ ''/api/v1/sessions/session-123/start'',
                      Query = [], Header = [], Body = None\<rparr> of
                None \<Rightarrow> [\<lparr>Method = ''POST'',
                           URL = baseURL c @ ''/api/v1/sessions/session-123/start'',
                           Query = [], Header = [(''Content-Type'', ''application/json'')],
                           Body = None\<rparr>]
              | Some e \<Rightarrow> [])
       \<and> (\<forall>code b s.
             NewRequestErr rt
               \<lparr>Method = ''POST'', URL = baseURL c @ ''/api/v1/sessions/session-123/start'',
                Query = [], Header = [], Body = None\<rparr> = None
             \<and> httpClient c
                 \<lparr>Method = ''POST'', URL = baseURL c @ ''/api/v1/sessions/session-123/start'',
                  Query = [], Header = [(''Content-Type'', ''application/json'')],
                  Body = None\<rparr> = Response code b
             \<and> code < 400 \<and> decodeSession rt b = Inr s \<and> Session.Status s = ''active''
             \<longrightarrow> (\<exists>r. fst (makeStartSession rt c args) = Inr r \<and> \<not> IsError r
                     \<and> sublist ''started successfully'' (result_text r)
                     \<and> sublist ''active'' (result_text r)))"
proof -
  have sid: "string_or_zero (args ''session_id'') = ''session-123''"
    by (simp add: assms string_or_zero_def)
  have tr: "snd (makeStartSession rt c args)
           = (case NewRequestErr rt
                     \<lparr>Method = ''POST'',
                      URL = baseURL c @ ''/api/v1/sessions/session-123/start'',
                      Query = [], Header = [], Body = None\<rparr> of
                None \<Rightarrow> [\<lparr>Method = ''POST'',
                           URL = baseURL c @ ''/api/v1/sessions/session-123/start'',
                           Query = [], Header = [(''Content-Type'', ''application/json'')],
                           Body = None\<rparr>]
              | Some e \<Rightarrow> [])"
    by (simp add: makeStartSession_def sid snd_wrap StartSession_def post_def doRequest_trace
          split: option.splits)
  have ok: "\<exists>r. fst (makeStartSession rt c args) = Inr r \<and> \<not> IsError r
                     \<and> sublist ''started successfully'' (result_text r)
                     \<and> sublist ''active'' (result_text r)"
    if "NewRequestErr rt
               \<lparr>Method = ''POST'', URL = baseURL c @ ''/api/v1/sessions/session-123/start'',
                Query = [], Header = [], Body = None\<rparr> = None"
      and "httpClient c
                 \<lparr>Method = ''POST'', URL = baseURL c @ ''/api/v1/sessions/session-123/start'',
                  Query = [], Header = [(''Content-Type'', ''application/json'')],
                  Body = None\<rparr> = Response code b"
      and "code < 400" and "decodeSession rt b = Inr s" and "Session.Status s = ''active''"
    for code b s
  proof -
    from that have
      "fst (makeStartSession rt c args)
         = Inr (NewToolResultText
             (''Session '' @ [CHR 0x27] @ Session.Name s @ [CHR 0x27]
                @ '' started successfully. Status: '' @ ''active''))"
      by (simp add: makeStartSession_def sid StartSession_def post_def doRequest_def)
    moreover have "result_text (NewToolResultText t) = t" "\<not> IsError (NewToolResultText t)" for t
      by (simp_all add: NewToolResultText_def result_text_def)
    ultimately show ?thesis
      using start_text [of "Session.Name s" "''active''"]
            status_text [of "''active''" "Session.Name s"]
      by (simp only: sum.inject ex_simps simp_thms)
  qed
  from tr ok show ?thesis by blast
qed


theorem start_session_123_witness:
  "[''session_id'' \<mapsto> IString ''session-123''] ''session_id''
     = Some (IString ''session-123'' :: real iface)
   \<and> snd (makeStartSession test_runtime (test_client 200 ''session'')
            [''session_id'' \<mapsto> IString ''session-123''])
       = [\<lparr>Method = ''POST'',
           URL = ''http://127.0.0.1:8080/api/v1/sessions/session-123/start'',
           Query = [], Header = [(''Content-Type'', ''application/json'')], Body = None\<rparr>]
   \<and> decodeSession test_runtime \<lparr>content = ''session'', readErr = None\<rparr> = Inr test_session
   \<and> Session.Status test_session = ''active''
   \<and> (\<exists>r. fst (makeStartSession test_runtime (test_client 200 ''session'')
                 [''session_id'' \<mapsto> IString ''session-123'']) = Inr r
          \<and> \<not> IsError r
          \<and> sublist ''started successfully'' (result_text r)
          \<and> sublist ''active'' (result_text r))"
proof -
  have a: "[''session_id'' \<mapsto> IString ''session-123''] ''session_id''
             = Some (IString ''session-123'' :: real iface)"
    by simp
  note th = start_session_123 [where args = "[''session_id'' \<mapsto> IString ''session-123'']"
              and rt = test_runtime and c = "test_client 200 ''session''", OF a]
  from th have tr:
    "snd (makeStartSession test_runtime (test_client 200 ''session'')
            [''session_id'' \<mapsto> IString ''session-123''])
       = [\<lparr>Method = ''POST'',
           URL = ''http://127.0.0.1:8080/api/v1/sessions/session-123/start'',
           Query = [], Header = [(''Content-Type'', ''application/json'')], Body = None\<rparr>]"
    by (simp add: test_runtime_def test_client_def)
  have d: "decodeSession test_runtime \<lparr>content = ''session'', readErr = None\<rparr> = Inr test_session"
    and st: "Session.Status test_session = ''active''"
    by (simp_all add: test_runtime_def test_decode_def test_session_def)
  have "NewRequestErr test_runtime
          \<lparr>Method = ''POST'',
           URL = baseURL (test_client 200 ''session'') @ ''/api/v1/sessions/session-123/start'',
           Query = [], Header = [], Body = None\<rparr> = None
        \<and> httpClient (test_client 200 ''session'')
            \<lparr>Method = ''POST'',
             URL = baseURL (test_client 200 ''session'')
                     @ ''/api/v1/sessions/session-123/start'',
             Query = [], Header = [(''Content-Type'', ''application/json'')], Body = None\<rparr>
          = Response 200 \<lparr>content = ''session'', readErr = None\<rparr>
        \<and> (200::int) < 400"
    by (simp add: test_runtime_def test_client_def)
  with th d st
  have "\<exists>r. fst (makeStartSession test_runtime (test_client 200 ''session'')
                 [''session_id'' \<mapsto> IString ''session-123'']) = Inr r
          \<and> \<not> IsError r
          \<and> sublist ''started successfully'' (result_text r)
          \<and> sublist ''active'' (result_text r)"
    by blast
  with a tr d st show ?thesis by blast
qed

text \<open>
  Claim C7. For every favorite_clip call that returns a result not flagged as an
  error, the client's call returned a clip; if that clip has \<open>IsFavorite\<close> true the
  text of the result contains "added to", and if false it contains "removed from".
\<close>

theorem favorite_clip_text:
  assumes "fst (makeFavoriteClip rt c args) = Inr r" and "\<not> IsError r"
  shows "\<exists>clip. fst (FavoriteClip rt c (string_or_zero (args ''clip_id''))) = Inr clip
           \<and> (if Clip.IsFavorite clip then sublist ''added to'' (result_text r)
               else sublist ''removed from'' (result_text r))"
proof (cases "string_or_zero (args ''clip_id'') = []")
  case True
  with assms show ?thesis
    by (auto simp: makeFavoriteClip_def NewToolResultError_def)
next
  case False
  obtain x tr where X: "FavoriteClip rt c (string_or_zero (args ''clip_id'')) = (x, tr)"
    by (cases "FavoriteClip rt c (string_or_zero (args ''clip_id''))")
  show ?thesis
  proof (cases x)
    case (Inl err)
    with assms False X show ?thesis
      by (auto simp: makeFavoriteClip_def NewToolResultError_def)
  next
    case (Inr clip)
    have clip_text: "sublist w (result_text (NewToolResultText (''Clip '' @ w @ '' favorites'')))"
      for w
      unfolding NewToolResultText_def result_text_def
      by (simp only: CallToolResult.simps TextContent.simps list.map concat.simps append_Nil2
            sublist_appendI)
    show ?thesis
    proof (cases "Clip.IsFavorite clip")
      case True
      with assms(1) False X Inr
      have "r = NewToolResultText (''Clip '' @ ''added to'' @ '' favorites'')"
        by (auto simp: makeFavoriteClip_def Let_def)
      with clip_text [of "''added to''"] have "sublist ''added to'' (result_text r)"
        by (simp only:)
      with X Inr True show ?thesis by simp
    next
      case fav: False
      with assms(1) False X Inr
      have "r = NewToolResultText (''Clip '' @ ''removed from'' @ '' favorites'')"
        by (auto simp: makeFavoriteClip_def Let_def)
      with clip_text [of "''removed from''"] have "sublist ''removed from'' (result_text r)"
        by (simp only:)
      with X Inr fav show ?thesis by simp
    qed
  qed
qed

theorem favorite_clip_text_witness:
  "fst (makeFavoriteClip test_runtime (test_client 200 ''favorite clip'')
          [''clip_id'' \<mapsto> IString ''clip-1''])
     = Inr (NewToolResultText ''Clip added to favorites'')
   \<and> \<not> IsError (NewToolResultText ''Clip added to favorites'')
   \<and> fst (FavoriteClip test_runtime (test_client 200 ''favorite clip'') ''clip-1'')
       = Inr (test_clip True)
   \<and> sublist ''added to'' (result_text (NewToolResultText ''Clip added to favorites''))
   \<and> fst (makeFavoriteClip test_runtime (test_client 200 ''clip'')
            [''clip_id'' \<mapsto> IString ''clip-1''])
       = Inr (NewToolResultText ''Clip removed from favorites'')
   \<and> \<not> IsError (NewToolResultText ''Clip removed from favorites'')
   \<and> fst (FavoriteClip test_runtime (test_client 200 ''clip'') ''clip-1'')
       = Inr (test_clip False)
   \<and> sublist ''removed from''
        (result_text (NewToolResultText ''Clip removed from favorites''))"
proof -
  let ?args = "[''clip_id'' \<mapsto> IString ''clip-1''] :: real Arguments"
  have id: "string_or_zero (?args ''clip_id'') = ''clip-1''"
    by (simp add: string_or_zero_def)
  have a1: "fst (makeFavoriteClip test_runtime (test_client 200 ''favorite clip'') ?args)
              = Inr (NewToolResultText ''Clip added to favorites'')"
    and a2: "fst (makeFavoriteClip test_runtime (test_client 200 ''clip'') ?args)
              = Inr (NewToolResultText ''Clip removed from favorites'')"
    by (simp_all add: makeFavoriteClip_def string_or_zero_def FavoriteClip_def post_def
          doRequest_def test_defs)
  have b1: "\<not> IsError (NewToolResultText ''Clip added to favorites'')"
    and b2: "\<not> IsError (NewToolResultText ''Clip removed from favorites'')"
    by (simp_all add: NewToolResultText_def)
  have c1: "fst (FavoriteClip test_runtime (test_client 200 ''favorite clip'') ''clip-1'')
              = Inr (test_clip True)"
    and c2: "fst (FavoriteClip test_runtime (test_client 200 ''clip'') ''clip-1'')
              = Inr (test_clip False)"
    by (simp_all add: FavoriteClip_def post_def doRequest_def test_runtime_def
          test_client_def test_decode_def)
  have f1: "Clip.IsFavorite (test_clip True)" and f2: "\<not> Clip.IsFavorite (test_clip False)"
    by (simp_all add: test_clip_def)
  from favorite_clip_text [OF a1 b1] c1 f1
  have d1: "sublist ''added to'' (result_text (NewToolResultText ''Clip added to favorites''))"
    unfolding id by auto
  from favorite_clip_text [OF a2 b2] c2 f2
  have d2: "sublist ''removed from''
              (result_text (NewToolResultText ''Clip removed from favorites''))"
    unfolding id by auto
  from a1 a2 b1 b2 c1 c2 d1 d2 show ?thesis by blast
qed

section \<open>Resource reads\<close>

text \<open>
  Claim C8. For each of the four resource handlers (sessions, clips, channels,
  tags), when the client's call returns an error the handler returns that error,
  wrapped, and no contents: the nil slice with a non-nil error, never a document.
\<close>

theorem resource_failure:
  "(\<forall>err. fst (ListSessions rt c
                  \<lparr>ListSessionsParams.Status = [], SessionType = [], Limit = 100,
                   Offset = 0\<rparr>) = Inl err
       \<longrightarrow> fst (makeSessionsResource rt c uri)
             = ([], Some (''failed to fetch sessions: '' @ err)))
   \<and> (\<forall>err. fst (ListClips rt c
                  \<lparr>ListClipsParams.SessionID = [], ChannelID = [], Status = [],
                   Favorite = None, Search = [], Limit = 100, Offset = 0\<rparr>) = Inl err
       \<longrightarrow> fst (makeClipsResource rt c uri)
             = ([], Some (''failed to fetch clips: '' @ err)))
   \<and> (\<forall>err. fst (ListChannels rt c) = Inl err
       \<longrightarrow> fst (makeChannelsResource rt c uri)
             = ([], Some (''failed to fetch channels: '' @ err)))
   \<and> (\<forall>err. fst (ListTags rt c
                  \<lparr>ListTagsParams.SessionID = [], ClipID = [], PlayType = [],
                   IsImportant = None, IsReviewed = None, Limit = 100, Offset = 0\<rparr>) = Inl err
       \<longrightarrow> fst (makeTagsResource rt c uri)
             = ([], Some (''failed to fetch tags: '' @ err)))"
  by (simp add: makeSessionsResource_def makeClipsResource_def makeChannelsResource_def
        makeTagsResource_def split: prod.splits sum.splits)

theorem resource_failure_witness:
  "fst (ListSessions test_runtime (test_client 500 ''server error'')
          \<lparr>ListSessionsParams.Status = [], SessionType = [], Limit = 100, Offset = 0\<rparr>)
     = Inl ''API error 500: server error''
   \<and> fst (makeSessionsResource test_runtime (test_client 500 ''server error'')
            ''video://sessions'')
       = ([], Some ''failed to fetch sessions: API error 500: server error'')
   \<and> fst (ListClips test_runtime (test_client 500 ''server error'')
            \<lparr>ListClipsParams.SessionID = [], ChannelID = [], Status = [],
             Favorite = None, Search = [], Limit = 100, Offset = 0\<rparr>)
       = Inl ''API error 500: server error''
   \<and> fst (makeClipsResource test_runtime (test_client 500 ''server error'')
            ''video://clips'')
       = ([], Some ''failed to fetch clips: API error 500: server error'')
   \<and> fst (ListChannels test_runtime (test_client 500 ''server error''))
       = Inl ''API error 500: server error''
   \<and> fst (makeChannelsResource test_runtime (test_client 500 ''server error'')
            ''video://channels'')
       = ([], Some ''failed to fetch channels: API error 500: server error'')
   \<and> fst (ListTags test_runtime (test_client 500 ''server error'')
            \<lparr>ListTagsParams.SessionID = [], ClipID = [], PlayType = [],
             IsImportant = None, IsReviewed = None, Limit = 100, Offset = 0\<rparr>)
       = Inl ''API error 500: server error''
   \<and> fst (makeTagsResource test_runtime (test_client 500 ''server error'')
            ''video://tags'')
       = ([], Some ''failed to fetch tags: API error 500: server error'')"
proof -
  let ?c = "test_client 500 ''server error''"
  have a: "fst (ListSessions test_runtime ?c
                  \<lparr>ListSessionsParams.Status = [], SessionType = [], Limit = 100,
                   Offset = 0\<rparr>) = Inl ''API error 500: server error''"
    and b: "fst (ListClips test_runtime ?c
                  \<lparr>ListClipsParams.SessionID = [], ChannelID = [], Status = [],
                   Favorite = None, Search = [], Limit = 100, Offset = 0\<rparr>)
              = Inl ''API error 500: server error''"
    and c: "fst (ListChannels test_runtime ?c) = Inl ''API error 500: server error''"
    and d: "fst (ListTags test_runtime ?c
                  \<lparr>ListTagsParams.SessionID = [], ClipID = [], PlayType = [],
                   IsImportant = None, IsReviewed = None, Limit = 100, Offset = 0\<rparr>)
              = Inl ''API error 500: server error''"
    by (simp_all add: client_defs get_def doRequest_def test_runtime_def test_client_def
          show_int_examples)
  from resource_failure [of test_runtime ?c "''video://sessions''"] a
  have a': "fst (makeSessionsResource test_runtime ?c ''video://sessions'')
              = ([], Some ''failed to fetch sessions: API error 500: server error'')"
    by simp
  from resource_failure [of test_runtime ?c "''video://clips''"] b
  have b': "fst (makeClipsResource test_runtime ?c ''video://clips'')
              = ([], Some ''failed to fetch clips: API error 500: server error'')"
    by simp
  from resource_failure [of test_runtime ?c "''video://channels''"] c
  have c': "fst (makeChannelsResource test_runtime ?c ''video://channels'')
              = ([], Some ''failed to fetch channels: API error 500: server error'')"
    by simp
  from resource_failure [of test_runtime ?c "''video://tags''"] d
  have d': "fst (makeTagsResource test_runtime ?c ''video://tags'')
              = ([], Some ''failed to fetch tags: API error 500: server error'')"
    by simp
  from a b c d a' b' c' d' show ?thesis by blast
qed

end
